theory Spec2Isabelle
  imports Main
begin

section \<open>Values: JSON, errors, HTTP responses\<close>

text \<open>
  The dashboard script \<^verbatim>\<open>covid_dashboard.py\<close> reads JSON from four fixed URLs of
  disease.sh, builds pandas tables from it and renders widgets. A parsed JSON value is a
  Python object: \<^verbatim>\<open>None\<close>, a bool, a number, a string, a list or a dict. A dict is the
  list of its items in insertion order (Python keeps that order, and the table builder
  depends on it); lookups take the first item with the key. Numbers are integers: the
  counts the script aggregates are integers, and a number with a fraction is not
  represented.
\<close>

datatype json =
    JNull
  | JBool bool
  | JInt int
  | JStr string
  | JArr "json list"
  | JObj "(string \<times> json) list"

text \<open>
  The exceptions the script can raise, as values. \<open>HTTPError\<close> carries the status code.
  \<open>NotModelled\<close> is not a Python exception: it marks an input on which pandas does
  something this development does not describe (a table built from something other
  than a list of objects, a maximum over a column holding other things than integers
  and nulls). No theorem below concludes anything from it.
\<close>

datatype error =
    ConnectionError
  | HTTPError nat
  | JSONDecodeError
  | KeyError string
  | TypeError
  | AttributeError
  | ValueError
  | NotModelled

text \<open>
  What \<^verbatim>\<open>requests.get(url)\<close> returns when the transport works: a status code and a
  body; \<open>body = None\<close> is a body that is not JSON. The network is a function from the URL
  to the answer, \<open>Inl\<close> for a transport failure (the exception \<^verbatim>\<open>requests.get\<close> raises).
\<close>

record response =
  status_code :: nat
  body :: "json option"

type_synonym network = "string \<Rightarrow> error + response"

text \<open>
  Every GET is logged: the log is the list of URLs requested so far, passed through
  each function that touches the network.
\<close>

definition requests_get :: "network \<Rightarrow> string \<Rightarrow> string list \<Rightarrow> (error + response) \<times> string list" where
  "requests_get net url log = (net url, log @ [url])"

text \<open>
  \<^verbatim>\<open>Response.raise_for_status()\<close> of the requests library raises for a client error
  (400 to 499) and for a server error (500 to 599), and for no other status.
\<close>

definition raise_for_status :: "response \<Rightarrow> error + unit" where
  "raise_for_status resp =
     (if 400 \<le> status_code resp \<and> status_code resp < 600
      then Inl (HTTPError (status_code resp)) else Inr ())"

definition resp_json :: "response \<Rightarrow> error + json" where
  "resp_json resp = (case body resp of None \<Rightarrow> Inl JSONDecodeError | Some js \<Rightarrow> Inr js)"

subsection \<open>Python's operations on parsed JSON\<close>

text \<open>\<^verbatim>\<open>js[key]\<close>: a dict looks the key up; nothing else can be indexed by a string.\<close>

fun py_getitem :: "json \<Rightarrow> string \<Rightarrow> error + json" where
  "py_getitem (JObj kvs) k = (case map_of kvs k of None \<Rightarrow> Inl (KeyError k) | Some v \<Rightarrow> Inr v)"
| "py_getitem _ k = Inl TypeError"

text \<open>\<^verbatim>\<open>js.get(key, default)\<close>: only a dict has the method.\<close>

fun py_get :: "json \<Rightarrow> string \<Rightarrow> json \<Rightarrow> error + json" where
  "py_get (JObj kvs) k d = Inr (case map_of kvs k of None \<Rightarrow> d | Some v \<Rightarrow> v)"
| "py_get _ k d = Inl AttributeError"

text \<open>\<^verbatim>\<open>list(d.keys())\<close> and \<^verbatim>\<open>list(d.values())\<close>, in insertion order.\<close>

fun py_keys :: "json \<Rightarrow> error + string list" where
  "py_keys (JObj kvs) = Inr (map fst kvs)"
| "py_keys _ = Inl AttributeError"

fun py_values :: "json \<Rightarrow> error + json list" where
  "py_values (JObj kvs) = Inr (map snd kvs)"
| "py_values _ = Inl AttributeError"

text \<open>Truth value of an object, as \<^verbatim>\<open>if not data\<close> tests it.\<close>

fun truthy :: "json \<Rightarrow> bool" where
  "truthy JNull = False"
| "truthy (JBool b) = b"
| "truthy (JInt i) = (i \<noteq> 0)"
| "truthy (JStr s) = (s \<noteq> [])"
| "truthy (JArr xs) = (xs \<noteq> [])"
| "truthy (JObj kvs) = (kvs \<noteq> [])"

text \<open>\<^verbatim>\<open>str.lower()\<close> on ASCII: the letters A to Z move to a to z.\<close>

definition lower_char :: "char \<Rightarrow> char" where
  "lower_char c =
     (if 65 \<le> (of_char c :: nat) \<and> (of_char c :: nat) \<le> 90
      then char_of ((of_char c :: nat) + 32) else c)"

definition lower :: "string \<Rightarrow> string" where
  "lower s = map lower_char s"

section \<open>Tables\<close>

text \<open>
  A pandas timestamp, as far as the script reads it: year, month, day. A cell of a
  table holds a value that came from the JSON, or a timestamp. \<open>Val JNull\<close> is the
  missing value (\<^verbatim>\<open>None\<close>, \<^verbatim>\<open>NaN\<close> and \<^verbatim>\<open>NaT\<close> alike: \<^verbatim>\<open>notna()\<close> is false on each).
\<close>

record timestamp =
  year :: int
  month :: nat
  day :: nat

datatype cell = Val json | Time timestamp

text \<open>
  A DataFrame is its number of rows and its columns in order, each a name and the
  cells of that column, one per row.
\<close>

record dataframe =
  nrows :: nat
  columns :: "(string \<times> cell list) list"

text \<open>
  \<^verbatim>\<open>pd.DataFrame({name: values, ...})\<close>: each value is a list or the scalar \<^verbatim>\<open>None\<close>
  (here \<open>None\<close>), which pandas repeats for every row. The lists must have one length;
  with no list at all pandas has no index to build and raises too.
\<close>

definition DataFrame :: "(string \<times> cell list option) list \<Rightarrow> error + dataframe" where
  "DataFrame d =
     (case remdups (List.map_filter (\<lambda>(k, v). map_option length v) d) of
        [n] \<Rightarrow> Inr \<lparr>nrows = n,
                    columns = map (\<lambda>(k, v). (k, case v of None \<Rightarrow> replicate n (Val JNull) | Some xs \<Rightarrow> xs)) d\<rparr>
      | _ \<Rightarrow> Inl ValueError)"

text \<open>
  \<^verbatim>\<open>pd.DataFrame(data)\<close> for a list of objects: one row per object, one column per key
  in order of first appearance, a missing value where an object lacks the key.
  \<^verbatim>\<open>pd.DataFrame(None)\<close> is the empty table, and a bare scalar is refused by pandas.
\<close>

definition first_seen :: "'a list \<Rightarrow> 'a list" where
  "first_seen ks = rev (remdups (rev ks))"

fun as_object :: "json \<Rightarrow> (string \<times> json) list option" where
  "as_object (JObj kvs) = Some kvs"
| "as_object _ = None"

definition record_cell :: "string \<Rightarrow> (string \<times> json) list \<Rightarrow> cell" where
  "record_cell k r = (case map_of r k of None \<Rightarrow> Val JNull | Some v \<Rightarrow> Val v)"

fun DataFrame_records :: "json \<Rightarrow> error + dataframe" where
  "DataFrame_records (JArr rows) =
     (case those (map as_object rows) of
        None \<Rightarrow> Inl NotModelled
      | Some rs \<Rightarrow>
          Inr \<lparr>nrows = length rs,
               columns = map (\<lambda>k. (k, map (record_cell k) rs)) (first_seen (concat (map (map fst) rs)))\<rparr>)"
| "DataFrame_records JNull = Inr \<lparr>nrows = 0, columns = []\<rparr>"
| "DataFrame_records (JObj kvs) = Inl NotModelled"
| "DataFrame_records _ = Inl ValueError"

text \<open>\<^verbatim>\<open>df[name]\<close>: the column, or \<^verbatim>\<open>KeyError\<close>.\<close>

definition getitem :: "dataframe \<Rightarrow> string \<Rightarrow> error + cell list" where
  "getitem df name = (case map_of (columns df) name of None \<Rightarrow> Inl (KeyError name) | Some xs \<Rightarrow> Inr xs)"

text \<open>
  \<^verbatim>\<open>df[name] = values\<close>: replaces the column where it stands, or adds it last; values of
  another length than the table are refused.
\<close>

fun assign :: "string \<Rightarrow> cell list \<Rightarrow> (string \<times> cell list) list \<Rightarrow> (string \<times> cell list) list" where
  "assign name xs [] = [(name, xs)]"
| "assign name xs ((k, ys) # cols) = (if k = name then (name, xs) # cols else (k, ys) # assign name xs cols)"

definition setitem :: "string \<Rightarrow> cell list \<Rightarrow> dataframe \<Rightarrow> error + dataframe" where
  "setitem name xs df =
     (if length xs = nrows df then Inr (df\<lparr>columns := assign name xs (columns df)\<rparr>) else Inl ValueError)"

text \<open>\<^verbatim>\<open>df[mask]\<close>: the rows where the mask is true.\<close>

definition select :: "bool list \<Rightarrow> 'a list \<Rightarrow> 'a list" where
  "select keep xs = map snd (filter fst (zip keep xs))"

definition boolean_index :: "bool list \<Rightarrow> dataframe \<Rightarrow> dataframe" where
  "boolean_index keep df =
     \<lparr>nrows = length (filter id keep), columns = map (\<lambda>(k, xs). (k, select keep xs)) (columns df)\<rparr>"

text \<open>\<^verbatim>\<open>df[[name, ...]]\<close>: the named columns in the order asked, \<^verbatim>\<open>KeyError\<close> if one is missing.\<close>

fun pick_columns :: "string list \<Rightarrow> (string \<times> cell list) list \<Rightarrow> error + (string \<times> cell list) list" where
  "pick_columns [] cols = Inr []"
| "pick_columns (n # ns) cols =
     (case map_of cols n of
        None \<Rightarrow> Inl (KeyError n)
      | Some xs \<Rightarrow> (case pick_columns ns cols of Inl e \<Rightarrow> Inl e | Inr rest \<Rightarrow> Inr ((n, xs) # rest)))"

definition getitems :: "dataframe \<Rightarrow> string list \<Rightarrow> error + dataframe" where
  "getitems df names =
     (case pick_columns names (columns df) of
        Inl e \<Rightarrow> Inl e
      | Inr cols \<Rightarrow> Inr \<lparr>nrows = nrows df, columns = cols\<rparr>)"

text \<open>\<^verbatim>\<open>df.empty\<close>: no rows or no columns.\<close>

definition empty_df :: "dataframe \<Rightarrow> bool" where
  "empty_df df = (nrows df = 0 \<or> columns df = [])"

text \<open>The rows of a table, each the list of its fields in column order.\<close>

definition rows_of :: "dataframe \<Rightarrow> (string \<times> cell) list list" where
  "rows_of df = map (\<lambda>i. map (\<lambda>(k, xs). (k, xs ! i)) (columns df)) [0..<nrows df]"

text \<open>A table is well formed when every column has one cell per row.\<close>

definition wf_df :: "dataframe \<Rightarrow> bool" where
  "wf_df df = list_all (\<lambda>(k, xs). length xs = nrows df) (columns df)"

section \<open>The three cached loaders\<close>

text \<open>Running one fallible step after another: the first error ends the chain, as a raised
  exception leaves the function.\<close>

definition and_then :: "error + 'a \<Rightarrow> ('a \<Rightarrow> error + 'b) \<Rightarrow> error + 'b" where
  "and_then m f = (case m of Inl e \<Rightarrow> Inl e | Inr x \<Rightarrow> f x)"

text \<open>
  \<^verbatim>\<open>pd.to_datetime(column)\<close> is pandas' date parser: a parameter of the loaders, so
  that what is proved of them holds for whatever the parser does. It gets the column and
  raises or returns one timestamp or \<^verbatim>\<open>NaT\<close> (here \<open>None\<close>) per cell.
\<close>

type_synonym to_datetime = "cell list \<Rightarrow> error + timestamp option list"

definition date_cell :: "timestamp option \<Rightarrow> cell" where
  "date_cell t = (case t of None \<Rightarrow> Val JNull | Some ts \<Rightarrow> Time ts)"

text \<open>\<^verbatim>\<open>column.dt.year\<close>: the year of each timestamp, missing where the date is; only a
  column of dates has \<^verbatim>\<open>.dt\<close>.\<close>

fun year_of_cell :: "cell \<Rightarrow> cell option" where
  "year_of_cell (Time t) = Some (Val (JInt (year t)))"
| "year_of_cell (Val JNull) = Some (Val JNull)"
| "year_of_cell _ = None"

definition dt_year :: "cell list \<Rightarrow> error + cell list" where
  "dt_year cs = (case those (map year_of_cell cs) of None \<Rightarrow> Inl AttributeError | Some ys \<Rightarrow> Inr ys)"

text \<open>\<^verbatim>\<open>(year >= 2020) & (year <= 2023)\<close> on one cell of the year column; a missing year
  compares false.\<close>

fun in_2020_2023 :: "cell \<Rightarrow> bool" where
  "in_2020_2023 (Val (JInt y)) = (2020 \<le> y \<and> y \<le> 2023)"
| "in_2020_2023 _ = False"

text \<open>
  Lines 36 to 38 of \<^verbatim>\<open>load_covid_data\<close>, and the same three lines 52 to 54 of
  \<^verbatim>\<open>load_vaccine_data\<close>: parse the date column, derive the year column from it,
  keep the rows of 2020 to 2023.
\<close>

definition restrict_years :: "to_datetime \<Rightarrow> dataframe \<Rightarrow> error + dataframe" where
  "restrict_years pd df =
     and_then (getitem df ''date'') (\<lambda>raw.
     and_then (pd raw) (\<lambda>ts.
     and_then (setitem ''date'' (map date_cell ts) df) (\<lambda>df1.
     and_then (getitem df1 ''date'') (\<lambda>dates.
     and_then (dt_year dates) (\<lambda>years.
     and_then (setitem ''year'' years df1) (\<lambda>df2.
     and_then (getitem df2 ''year'') (\<lambda>ys.
     Inr (boolean_index (map in_2020_2023 ys) df2))))))))"

text \<open>\<^verbatim>\<open>key in d\<close> for a dict \<open>d\<close>; the script asks it of nothing else.\<close>

fun py_in :: "string \<Rightarrow> json \<Rightarrow> bool" where
  "py_in k (JObj kvs) = (map_of kvs k \<noteq> None)"
| "py_in k _ = False"

text \<open>
  The dict literal handed to \<^verbatim>\<open>pd.DataFrame\<close> in lines 18 to 23 (on \<^verbatim>\<open>js\<close>) and in
  lines 30 to 35 (on \<^verbatim>\<open>timeline\<close>); under its guard \<^verbatim>\<open>js.get("recovered", {})\<close> is
  \<^verbatim>\<open>js["recovered"]\<close>. The entries are evaluated in order, so the first failing lookup
  is the error. The columns are the keys of \<^verbatim>\<open>cases\<close>, its values, the values of
  \<^verbatim>\<open>deaths\<close>, and the values of \<^verbatim>\<open>recovered\<close> or the scalar \<^verbatim>\<open>None\<close>.
\<close>

definition history_frame :: "json \<Rightarrow> error + dataframe" where
  "history_frame d =
     and_then (py_getitem d ''cases'') (\<lambda>cases.
     and_then (py_keys cases) (\<lambda>dates.
     and_then (py_values cases) (\<lambda>confirmed.
     and_then (py_getitem d ''deaths'') (\<lambda>deaths_d.
     and_then (py_values deaths_d) (\<lambda>deaths.
     and_then (if py_in ''recovered'' d
               then and_then (py_getitem d ''recovered'') (\<lambda>rec_d.
                    and_then (py_values rec_d) (\<lambda>rs. Inr (Some (map Val rs))))
               else Inr None) (\<lambda>recovered.
     DataFrame [(''date'', Some (map (\<lambda>k. Val (JStr k)) dates)),
                (''confirmed'', Some (map Val confirmed)),
                (''deaths'', Some (map Val deaths)),
                (''recovered'', recovered)]))))))"

definition url_historical_all :: string where
  "url_historical_all = ''https://disease.sh/v3/covid-19/historical/all?lastdays=all''"

definition url_historical :: "string \<Rightarrow> string" where
  "url_historical country = ''https://disease.sh/v3/covid-19/historical/'' @ country @ ''?lastdays=all''"

definition url_vaccine :: "string \<Rightarrow> string" where
  "url_vaccine country =
     ''https://disease.sh/v3/covid-19/vaccine/coverage/countries/'' @ country @ ''?lastdays=all&fullData=true''"

definition url_countries :: string where
  "url_countries = ''https://disease.sh/v3/covid-19/countries''"

text \<open>
  \<^verbatim>\<open>load_covid_data(country)\<close>, lines 11 to 39. The argument is \<open>None\<close> or a string.
  The decorator \<^verbatim>\<open>st.cache_data(ttl=3600)\<close> is not part of the function: what is here is
  the body a cache miss runs.
\<close>

definition load_covid_data :: "to_datetime \<Rightarrow> network \<Rightarrow> string option \<Rightarrow> string list \<Rightarrow> (error + dataframe) \<times> string list" where
  "load_covid_data pd net country log =
     (if country = None \<or> map_option lower country = Some ''global'' then
        (case requests_get net url_historical_all log of (r, log') \<Rightarrow>
          (and_then r (\<lambda>resp.
           and_then (raise_for_status resp) (\<lambda>_.
           and_then (resp_json resp) (\<lambda>js.
           and_then (history_frame js) (\<lambda>df.
           restrict_years pd df)))), log'))
      else
        (case requests_get net (url_historical (the country)) log of (r, log') \<Rightarrow>
          (and_then r (\<lambda>resp.
           and_then (raise_for_status resp) (\<lambda>_.
           and_then (resp_json resp) (\<lambda>js.
           and_then (py_get js ''timeline'' (JObj [])) (\<lambda>timeline.
           and_then (history_frame timeline) (\<lambda>df.
           restrict_years pd df))))), log')))"

text \<open>\<^verbatim>\<open>load_vaccine_data(country)\<close>, lines 42 to 55.\<close>

definition load_vaccine_data :: "to_datetime \<Rightarrow> network \<Rightarrow> string \<Rightarrow> string list \<Rightarrow> (error + dataframe) \<times> string list" where
  "load_vaccine_data pd net country log =
     (case requests_get net (url_vaccine country) log of (r, log') \<Rightarrow>
       (and_then r (\<lambda>resp.
        and_then (raise_for_status resp) (\<lambda>_.
        and_then (resp_json resp) (\<lambda>js.
        and_then (py_get js ''timeline'' (JArr [])) (\<lambda>data.
        if \<not> truthy data then Inr \<lparr>nrows = 0, columns = [(''date'', []), (''total'', [])]\<rparr>
        else and_then (DataFrame_records data) (\<lambda>df.
             restrict_years pd df))))), log'))"

text \<open>\<^verbatim>\<open>column.apply(lambda x: x.get(key))\<close>: every cell must be a dict.\<close>

fun cell_get :: "string \<Rightarrow> cell \<Rightarrow> cell option" where
  "cell_get k (Val (JObj kvs)) = Some (record_cell k kvs)"
| "cell_get k _ = None"

definition apply_get :: "string \<Rightarrow> cell list \<Rightarrow> error + cell list" where
  "apply_get k cs = (case those (map (cell_get k) cs) of None \<Rightarrow> Inl AttributeError | Some ys \<Rightarrow> Inr ys)"

text \<open>\<^verbatim>\<open>load_country_data()\<close>, lines 59 to 65. The response goes straight to
  \<^verbatim>\<open>.json()\<close>: this function does not call \<^verbatim>\<open>raise_for_status\<close>.\<close>

definition load_country_data :: "network \<Rightarrow> string list \<Rightarrow> (error + dataframe) \<times> string list" where
  "load_country_data net log =
     (case requests_get net url_countries log of (r, log') \<Rightarrow>
       (and_then r (\<lambda>resp.
        and_then (resp_json resp) (\<lambda>data.
        and_then (DataFrame_records data) (\<lambda>df.
        and_then (getitem df ''countryInfo'') (\<lambda>infos.
        and_then (apply_get ''lat'' infos) (\<lambda>lats.
        and_then (setitem ''lat'' lats df) (\<lambda>df1.
        and_then (getitem df1 ''countryInfo'') (\<lambda>infos1.
        and_then (apply_get ''long'' infos1) (\<lambda>longs.
        and_then (setitem ''long'' longs df1) (\<lambda>df2.
        getitems df2 [''country'', ''cases'', ''deaths'', ''recovered'', ''lat'', ''long'']))))))))), log'))"

section \<open>The page\<close>

subsection \<open>Formatting numbers\<close>

text \<open>\<^verbatim>\<open>str(n)\<close> of an integer: its decimal digits, with a minus sign when negative.\<close>

definition digit_char :: "nat \<Rightarrow> char" where
  "digit_char d = char_of (48 + d)"

fun str_nat :: "nat \<Rightarrow> string" where
  "str_nat n = (if n < 10 then [digit_char n] else str_nat (n div 10) @ [digit_char (n mod 10)])"

declare str_nat.simps [simp del]

definition str_int :: "int \<Rightarrow> string" where
  "str_int i = (if i < 0 then CHR ''-'' # str_nat (nat (- i)) else str_nat (nat i))"

text \<open>
  \<^verbatim>\<open>f"{n:,}"\<close>: the decimal digits in groups of three from the right, a comma between
  the groups, after the sign. \<open>group3\<close> works on the digits least significant first.
\<close>

fun group3 :: "string \<Rightarrow> string" where
  "group3 (a # b # c # d # ds) = a # b # c # CHR '','' # group3 (d # ds)"
| "group3 ds = ds"

definition format_comma :: "int \<Rightarrow> string" where
  "format_comma i =
     (if i < 0 then ''-'' else []) @ rev (group3 (rev (str_nat (nat \<bar>i\<bar>))))"

subsection \<open>Widgets and controls\<close>

text \<open>
  What the script puts on the page, in order. A chart records the table it draws and
  the arguments that depend on the data; the fixed styling arguments are left out.
  \<open>LineChart\<close> has the table, the x column, the y columns and the title.
\<close>

datatype widget =
    ScatterGeo dataframe
  | Metric string string
  | LineChart dataframe string "string list" string
  | Subheader string
  | Warning string
  | Info string

text \<open>
  \<^verbatim>\<open>st.sidebar.selectbox(label, options)\<close> returns the option the user picked. The user
  is the index \<open>i\<close>; an index that is not on the list falls back to the first option,
  as the widget does for a stale choice, and an empty list gives \<^verbatim>\<open>None\<close>.
\<close>

definition selectbox :: "'a list \<Rightarrow> nat \<Rightarrow> 'a option" where
  "selectbox options i =
     (if options = [] then None
      else Some (if i < length options then options ! i else options ! 0))"

definition country_options :: "string list" where
  "country_options =
     [''Global'', ''USA'', ''India'', ''Brazil'', ''Germany'', ''France'', ''UK'', ''China'', ''Japan'']"

text \<open>Line 91: \<^verbatim>\<open>use_country = country_input if country_input != "Global" else None\<close>.\<close>

definition use_country_of :: "string option \<Rightarrow> string option" where
  "use_country_of country_input = (if country_input \<noteq> Some ''Global'' then country_input else None)"

subsection \<open>Year filter, lines 97 to 99\<close>

fun int_of_cell :: "cell \<Rightarrow> int option" where
  "int_of_cell (Val (JInt i)) = Some i"
| "int_of_cell _ = None"

text \<open>\<^verbatim>\<open>sorted(df["year"].unique())\<close>: the distinct years, ascending. The year column of
  a loaded history table holds integers only.\<close>

definition available_years :: "dataframe \<Rightarrow> error + int list" where
  "available_years df =
     and_then (getitem df ''year'') (\<lambda>ys.
       case those (map int_of_cell ys) of
         None \<Rightarrow> Inl NotModelled
       | Some years \<Rightarrow> Inr (sort (remdups years)))"

text \<open>\<^verbatim>\<open>df[df["year"] == selected_year]\<close>; nothing equals \<^verbatim>\<open>None\<close>.\<close>

definition year_equals :: "int option \<Rightarrow> cell \<Rightarrow> bool" where
  "year_equals selected_year c = (case selected_year of None \<Rightarrow> False | Some y \<Rightarrow> c = Val (JInt y))"

definition filter_year :: "int option \<Rightarrow> dataframe \<Rightarrow> error + dataframe" where
  "filter_year selected_year df =
     and_then (getitem df ''year'') (\<lambda>ys. Inr (boolean_index (map (year_equals selected_year) ys) df))"

subsection \<open>Metrics, lines 102 to 109\<close>

definition notna :: "cell \<Rightarrow> bool" where
  "notna c = (c \<noteq> Val JNull)"

text \<open>
  \<^verbatim>\<open>int(column.max())\<close>: the maximum skips missing values; over nothing it is \<^verbatim>\<open>NaN\<close>,
  which \<^verbatim>\<open>int\<close> refuses with \<^verbatim>\<open>ValueError\<close>. Described for columns of integers and
  missing values.
\<close>

definition int_max :: "cell list \<Rightarrow> error + int" where
  "int_max cs =
     (case those (map int_of_cell (filter notna cs)) of
        None \<Rightarrow> Inl NotModelled
      | Some [] \<Rightarrow> Inl ValueError
      | Some (i # is) \<Rightarrow> Inr (fold max is i))"

text \<open>The three totals of lines 102 to 104.\<close>

definition totals :: "dataframe \<Rightarrow> error + (int \<times> int \<times> int option)" where
  "totals filtered =
     and_then (getitem filtered ''confirmed'') (\<lambda>cs.
     and_then (int_max cs) (\<lambda>total_confirmed.
     and_then (getitem filtered ''deaths'') (\<lambda>ds.
     and_then (int_max ds) (\<lambda>total_deaths.
     and_then (getitem filtered ''recovered'') (\<lambda>rs.
     and_then (if list_ex notna rs
               then and_then (getitem filtered ''recovered'') (\<lambda>rs'.
                    and_then (int_max rs') (\<lambda>m. Inr (Some m)))
               else Inr None) (\<lambda>total_recovered.
     Inr (total_confirmed, total_deaths, total_recovered)))))))"

text \<open>The three cards of lines 107 to 109.\<close>

definition metric_cards :: "int \<times> int \<times> int option \<Rightarrow> widget list" where
  "metric_cards t =
     (case t of (total_confirmed, total_deaths, total_recovered) \<Rightarrow>
       [Metric ''Total Confirmed'' (format_comma total_confirmed),
        Metric ''Total Deaths'' (format_comma total_deaths),
        Metric ''Total Recovered''
          (case total_recovered of None \<Rightarrow> ''N/A'' | Some r \<Rightarrow> format_comma r)])"

subsection \<open>Trend chart, lines 112 to 120\<close>

definition y_cols :: "int option \<Rightarrow> string list" where
  "y_cols total_recovered =
     [''confirmed'', ''deaths''] @ (if total_recovered \<noteq> None then [''recovered''] else [])"

definition str_option :: "('a \<Rightarrow> string) \<Rightarrow> 'a option \<Rightarrow> string" where
  "str_option f x = (case x of None \<Rightarrow> ''None'' | Some v \<Rightarrow> f v)"

definition trend_chart :: "dataframe \<Rightarrow> int option \<Rightarrow> string option \<Rightarrow> int option \<Rightarrow> widget" where
  "trend_chart filtered total_recovered country_input selected_year =
     LineChart filtered ''date'' (y_cols total_recovered)
       (''Cumulative COVID-19 Trends: '' @ str_option id country_input @ '' ('' @
        str_option str_int selected_year @ '')'')"

text \<open>Lines 97 to 120 together: everything that can raise (lines 97 to 104) comes before
  the first card is drawn.\<close>

definition history_section :: "dataframe \<Rightarrow> string option \<Rightarrow> nat \<Rightarrow> error + widget list" where
  "history_section df country_input yi =
     and_then (available_years df) (\<lambda>years.
     and_then (filter_year (selectbox years yi) df) (\<lambda>filtered.
     and_then (totals filtered) (\<lambda>t.
     Inr (metric_cards t @ [trend_chart filtered (snd (snd t)) country_input (selectbox years yi)]))))"

subsection \<open>Vaccine section, lines 123 to 140\<close>

text \<open>The syringe of the subheader, as its four UTF-8 bytes.\<close>

definition syringe :: string where
  "syringe = [char_of (240::nat), char_of (159::nat), char_of (146::nat), char_of (137::nat)]"

text \<open>\<^verbatim>\<open>if use_country:\<close> holds for a string that is not empty.\<close>

definition vaccine_section :: "to_datetime \<Rightarrow> network \<Rightarrow> string option \<Rightarrow> string list \<Rightarrow> (error + widget list) \<times> string list" where
  "vaccine_section pd net use_country log =
     (if use_country \<noteq> None \<and> use_country \<noteq> Some [] then
        (case load_vaccine_data pd net (the use_country) log of (r, log') \<Rightarrow>
          (and_then r (\<lambda>df_vaccine.
             if \<not> empty_df df_vaccine then
               and_then (getitem df_vaccine ''total'') (\<lambda>ts.
               and_then (int_max ts) (\<lambda>total_vaccines.
               Inr [Subheader (syringe @ '' COVID-19 Vaccinations in '' @ the use_country),
                    Metric ''Total Vaccines Administered'' (format_comma total_vaccines),
                    LineChart df_vaccine ''date'' [''total'']
                      (''Daily Cumulative Vaccinations: '' @ the use_country @ '' (2020-2023)'')]))
             else Inr [Warning (''No vaccination data available for '' @ the use_country @ ''.'')]),
           log'))
      else (Inr [Info ''Select a specific country to view vaccination data.''], log))"

subsection \<open>One run of the script\<close>

text \<open>
  The module runs top to bottom on every interaction: lines 67 to 140. Its inputs are
  the date parser, the network and the two choices of the user (country, year); its
  result is the GETs it issued, the widgets it drew, and the exception that ended it,
  if one did. Page configuration and the static title (lines 7 and 8) are left out.
\<close>

record run =
  requests :: "string list"
  page :: "widget list"
  failure :: "error option"

definition main :: "to_datetime \<Rightarrow> network \<Rightarrow> nat \<Rightarrow> nat \<Rightarrow> run" where
  "main pd net ci yi =
     (case load_country_data net [] of
        (Inl e, log1) \<Rightarrow> \<lparr>requests = log1, page = [], failure = Some e\<rparr>
      | (Inr snapshot, log1) \<Rightarrow>
          (case load_covid_data pd net (use_country_of (selectbox country_options ci)) log1 of
             (Inl e, log2) \<Rightarrow> \<lparr>requests = log2, page = [ScatterGeo snapshot], failure = Some e\<rparr>
           | (Inr df, log2) \<Rightarrow>
               (case history_section df (selectbox country_options ci) yi of
                  Inl e \<Rightarrow> \<lparr>requests = log2, page = [ScatterGeo snapshot], failure = Some e\<rparr>
                | Inr ws \<Rightarrow>
                    (case vaccine_section pd net (use_country_of (selectbox country_options ci)) log2 of
                       (Inl e, log3) \<Rightarrow>
                         \<lparr>requests = log3, page = ScatterGeo snapshot # ws, failure = Some e\<rparr>
                     | (Inr vs, log3) \<Rightarrow>
                         \<lparr>requests = log3, page = ScatterGeo snapshot # ws @ vs, failure = None\<rparr>))))"

section \<open>A date parser for the dates of disease.sh\<close>

text \<open>
  The service writes dates as month/day/two-digit year (\<^verbatim>\<open>1/22/20\<close>). This is the
  parser on that format, with the two-digit year read as \<^verbatim>\<open>%y\<close> reads it (00 to 68 are
  2000 to 2068, 69 to 99 are 1969 to 1999); a missing value stays missing, anything else
  is refused. It is the instance at which the general statements are evaluated.
\<close>

definition digit_of :: "char \<Rightarrow> nat option" where
  "digit_of c = (if 48 \<le> (of_char c :: nat) \<and> (of_char c :: nat) \<le> 57 then Some ((of_char c :: nat) - 48) else None)"

definition parse_nat :: "string \<Rightarrow> nat option" where
  "parse_nat s = (if s = [] then None else map_option (foldl (\<lambda>a d. 10 * a + d) 0) (those (map digit_of s)))"

fun split_on :: "char \<Rightarrow> string \<Rightarrow> string list" where
  "split_on c [] = [[]]"
| "split_on c (x # xs) =
     (if x = c then [] # split_on c xs
      else (case split_on c xs of [] \<Rightarrow> [[x]] | w # ws \<Rightarrow> (x # w) # ws))"

definition leap_year :: "nat \<Rightarrow> bool" where
  "leap_year y = (y mod 4 = 0 \<and> (y mod 400 = 0 \<or> y mod 100 \<noteq> 0))"

definition days_in_month :: "nat \<Rightarrow> nat \<Rightarrow> nat" where
  "days_in_month y m =
     (if m = 2 then (if leap_year y then 29 else 28)
      else if m = 4 \<or> m = 6 \<or> m = 9 \<or> m = 11 then 30 else 31)"

definition parse_mdy :: "string \<Rightarrow> timestamp option" where
  "parse_mdy s =
     (case map parse_nat (split_on CHR ''/'' s) of
        [Some m, Some d, Some yy] \<Rightarrow>
          (let y = (if yy < 69 then 2000 + yy else 1900 + yy) in
           if yy < 100 \<and> 1 \<le> m \<and> m \<le> 12 \<and> 1 \<le> d \<and> d \<le> days_in_month y m
           then Some \<lparr>year = int y, month = m, day = d\<rparr> else None)
      | _ \<Rightarrow> None)"

fun parse_cell :: "cell \<Rightarrow> timestamp option option" where
  "parse_cell (Val (JStr s)) = map_option Some (parse_mdy s)"
| "parse_cell (Val JNull) = Some None"
| "parse_cell _ = None"

definition to_datetime_mdy :: to_datetime where
  "to_datetime_mdy cs = (case those (map parse_cell cs) of None \<Rightarrow> Inl ValueError | Some ts \<Rightarrow> Inr ts)"

section \<open>The result cache\<close>

text \<open>
  Each loader is decorated with \<^verbatim>\<open>st.cache_data(ttl=3600)\<close> (lines 10, 41 and 58). A
  call of a decorated loader is the function called and its argument values: that pair
  is the key of the cache.
\<close>

datatype call =
    Covid "string option"
  | Vaccine string
  | Country

text \<open>The time-to-live the three decorators are given, in seconds.\<close>

definition ttl :: int where
  "ttl = 3600"

text \<open>The undecorated body a call runs, and the URL that body requests.\<close>

fun run_call :: "to_datetime \<Rightarrow> network \<Rightarrow> call \<Rightarrow> string list \<Rightarrow> (error + dataframe) \<times> string list" where
  "run_call pd net (Covid country) log = load_covid_data pd net country log"
| "run_call pd net (Vaccine country) log = load_vaccine_data pd net country log"
| "run_call pd net Country log = load_country_data net log"

fun url_of :: "call \<Rightarrow> string" where
  "url_of (Covid country) =
     (if country = None \<or> map_option lower country = Some ''global''
      then url_historical_all else url_historical (the country))"
| "url_of (Vaccine country) = url_vaccine country"
| "url_of Country = url_countries"

text \<open>An entry of the cache: the table a call returned and the time it was stored, in
  seconds. The cache is a dict from calls to entries.\<close>

record entry =
  stored_at :: int
  table :: dataframe

type_synonym cache = "call \<Rightarrow> entry option"

text \<open>
  Modelled from the spec: the body of \<^verbatim>\<open>st.cache_data\<close>, Streamlit's memoization
  layer, which is not among the sources. Section 4.3 of the specification: a
  memoization layer keyed by function identity and argument values with a fixed
  time-to-live; within the time-to-live a repeated call returns the previously
  computed table without a new network call; after expiry the next call fetches again.
  An entry is taken as valid while its age is less than the time-to-live. A call that
  raises stores nothing, the entry being a computed table.
\<close>

definition cache_data ::
  "int \<Rightarrow> call \<Rightarrow> (string list \<Rightarrow> (error + dataframe) \<times> string list) \<Rightarrow> int \<Rightarrow> cache \<Rightarrow> string list
     \<Rightarrow> ((error + dataframe) \<times> string list) \<times> cache" where
  "cache_data life key f now c log =
     (case c key of
        Some e \<Rightarrow>
          if now - stored_at e < life then ((Inr (table e), log), c)
          else (case f log of
                  (Inr df, log') \<Rightarrow> ((Inr df, log'), c(key \<mapsto> \<lparr>stored_at = now, table = df\<rparr>))
                | (Inl err, log') \<Rightarrow> ((Inl err, log'), c))
      | None \<Rightarrow>
          (case f log of
             (Inr df, log') \<Rightarrow> ((Inr df, log'), c(key \<mapsto> \<lparr>stored_at = now, table = df\<rparr>))
           | (Inl err, log') \<Rightarrow> ((Inl err, log'), c)))"

text \<open>A decorated loader, called at the time \<open>now\<close> with the cache \<open>c\<close>.\<close>

definition cached ::
  "to_datetime \<Rightarrow> network \<Rightarrow> call \<Rightarrow> int \<Rightarrow> cache \<Rightarrow> string list
     \<Rightarrow> ((error + dataframe) \<times> string list) \<times> cache" where
  "cached pd net k now c log = cache_data ttl k (run_call pd net k) now c log"

section \<open>Notions the statements use\<close>

text \<open>The year of a parsed date as the year column holds it; missing where the date is.\<close>

definition year_cell :: "timestamp option \<Rightarrow> cell" where
  "year_cell t = (case t of None \<Rightarrow> Val JNull | Some ts \<Rightarrow> Val (JInt (year ts)))"

text \<open>A table after lines 36 and 37: the date column parsed, the year column added,
  no row removed yet.\<close>

definition with_dates :: "timestamp option list \<Rightarrow> dataframe \<Rightarrow> dataframe" where
  "with_dates ts df =
     df\<lparr>columns := assign ''year'' (map year_cell ts) (assign ''date'' (map date_cell ts) (columns df))\<rparr>"

text \<open>A row whose date is parsed, whose year is the year of that date, and whose year is
  one of 2020 to 2023.\<close>

definition row_in_range :: "(string \<times> cell) list \<Rightarrow> bool" where
  "row_in_range r =
     (\<exists>t. map_of r ''date'' = Some (Time t) \<and> map_of r ''year'' = Some (Val (JInt (year t))) \<and>
          2020 \<le> year t \<and> year t \<le> 2023)"

text \<open>The recovered column of a history table with \<open>n\<close> rows: the values of the
  \<^verbatim>\<open>recovered\<close> mapping, or \<open>n\<close> missing values when the response has none.\<close>

definition series_cells :: "(string \<times> json) list option \<Rightarrow> nat \<Rightarrow> cell list" where
  "series_cells rec n = (case rec of None \<Rightarrow> replicate n (Val JNull) | Some rs \<Rightarrow> map (\<lambda>kv. Val (snd kv)) rs)"

text \<open>
  Row \<open>i\<close> of a history table built from the mappings \<open>cs\<close> (cases), \<open>ds\<close> (deaths) and
  \<open>rec\<close> (recovered, if any) and the parsed dates \<open>ts\<close>: entry \<open>i\<close> of each, whatever
  the keys of \<open>ds\<close> and \<open>rec\<close> are.
\<close>

definition history_row ::
  "timestamp option list \<Rightarrow> (string \<times> json) list \<Rightarrow> (string \<times> json) list \<Rightarrow> (string \<times> json) list option \<Rightarrow> nat \<Rightarrow> (string \<times> cell) list" where
  "history_row ts cs ds rec i =
     [(''date'', date_cell (ts ! i)),
      (''confirmed'', Val (snd (cs ! i))),
      (''deaths'', Val (snd (ds ! i))),
      (''recovered'', case rec of None \<Rightarrow> Val JNull | Some rs \<Rightarrow> Val (snd (rs ! i))),
      (''year'', year_cell (ts ! i))]"

text \<open>
  What \<^verbatim>\<open>x.get(k)\<close> gives on the \<^verbatim>\<open>countryInfo\<close> of a snapshot row: the value
  under \<open>k\<close>, or \<^verbatim>\<open>None\<close> when the geographic info has no such key.
\<close>

definition geo_cell :: "string \<Rightarrow> (string \<times> json) list \<Rightarrow> cell" where
  "geo_cell k r =
     (case map_of r ''countryInfo'' of
        Some (JObj ci) \<Rightarrow> (case map_of ci k of None \<Rightarrow> Val JNull | Some v \<Rightarrow> Val v)
      | _ \<Rightarrow> Val JNull)"

text \<open>A snapshot row whose \<^verbatim>\<open>countryInfo\<close> is a dict.\<close>

definition has_geo :: "(string \<times> json) list \<Rightarrow> bool" where
  "has_geo r = (case map_of r ''countryInfo'' of Some (JObj ci) \<Rightarrow> True | _ \<Rightarrow> False)"

text \<open>A column of a table that holds an integer in every row, as the count columns of
  the data model do.\<close>

definition integer_column :: "dataframe \<Rightarrow> string \<Rightarrow> bool" where
  "integer_column df name =
     (case map_of (columns df) name of
        None \<Rightarrow> False
      | Some cs \<Rightarrow> list_all (\<lambda>c. int_of_cell c \<noteq> None) cs)"

section \<open>Sample responses\<close>

text \<open>
  Concrete answers of the service, at which the general statements are evaluated. The
  global history has four dates, the last one in 2024, and no \<^verbatim>\<open>recovered\<close> mapping.
\<close>

definition sample_cases :: "(string \<times> json) list" where
  "sample_cases =
     [(''1/22/20'', JInt 1), (''12/30/23'', JInt 1234567), (''12/31/23'', JInt 1234000), (''1/1/24'', JInt 1234599)]"

definition sample_deaths :: "(string \<times> json) list" where
  "sample_deaths =
     [(''1/22/20'', JInt 0), (''12/30/23'', JInt 4321), (''12/31/23'', JInt 4322), (''1/1/24'', JInt 4400)]"

definition sample_global :: "(string \<times> json) list" where
  "sample_global = [(''cases'', JObj sample_cases), (''deaths'', JObj sample_deaths)]"

text \<open>The history of one country has the mappings under \<^verbatim>\<open>timeline\<close>, here with a
  \<^verbatim>\<open>recovered\<close> mapping.\<close>

definition sample_recovered :: "(string \<times> json) list" where
  "sample_recovered =
     [(''1/22/20'', JInt 0), (''12/30/23'', JInt 1000), (''12/31/23'', JInt 900), (''1/1/24'', JInt 1001)]"

definition sample_usa :: "(string \<times> json) list" where
  "sample_usa =
     [(''country'', JStr ''USA''),
      (''timeline'', JObj [(''cases'', JObj sample_cases), (''deaths'', JObj sample_deaths),
                           (''recovered'', JObj sample_recovered)])]"

text \<open>The snapshot list: two countries, the second with no \<^verbatim>\<open>lat\<close> in its
  \<^verbatim>\<open>countryInfo\<close>.\<close>

definition sample_countries :: "(string \<times> json) list list" where
  "sample_countries =
     [[(''country'', JStr ''USA''),
       (''countryInfo'', JObj [(''iso2'', JStr ''US''), (''lat'', JInt 38), (''long'', JInt (- 97))]),
       (''cases'', JInt 100), (''deaths'', JInt 3), (''recovered'', JInt 90), (''population'', JInt 1000)],
      [(''country'', JStr ''Diamond Princess''),
       (''countryInfo'', JObj [(''iso2'', JNull), (''long'', JInt 139)]),
       (''cases'', JInt 7), (''deaths'', JInt 1), (''recovered'', JInt 6), (''population'', JInt 0)]]"

text \<open>The vaccination answer for a country with no timeline entries.\<close>

definition sample_vaccine_empty :: "(string \<times> json) list" where
  "sample_vaccine_empty = [(''country'', JStr ''USA''), (''timeline'', JArr [])]"

definition sample_net :: network where
  "sample_net url =
     (if url = url_countries then Inr \<lparr>status_code = 200, body = Some (JArr (map JObj sample_countries))\<rparr>
      else if url = url_historical_all then Inr \<lparr>status_code = 200, body = Some (JObj sample_global)\<rparr>
      else if url = url_historical ''USA'' then Inr \<lparr>status_code = 200, body = Some (JObj sample_usa)\<rparr>
      else if url = url_vaccine ''USA'' then Inr \<lparr>status_code = 200, body = Some (JObj sample_vaccine_empty)\<rparr>
      else Inl ConnectionError)"

text \<open>A network that answers every GET with status 500 and the snapshot list as body.\<close>

definition server_error_net :: network where
  "server_error_net url = Inr \<lparr>status_code = 500, body = Some (JArr (map JObj sample_countries))\<rparr>"

text \<open>The table \<^verbatim>\<open>load_covid_data(None)\<close> builds from the global history.\<close>

definition sample_table :: dataframe where
  "sample_table =
     \<lparr>nrows = 3,
      columns =
        [(''date'', [Time \<lparr>year = 2020, month = 1, day = 22\<rparr>, Time \<lparr>year = 2023, month = 12, day = 30\<rparr>,
                     Time \<lparr>year = 2023, month = 12, day = 31\<rparr>]),
         (''confirmed'', [Val (JInt 1), Val (JInt 1234567), Val (JInt 1234000)]),
         (''deaths'', [Val (JInt 0), Val (JInt 4321), Val (JInt 4322)]),
         (''recovered'', [Val JNull, Val JNull, Val JNull]),
         (''year'', [Val (JInt 2020), Val (JInt 2023), Val (JInt 2023)])]\<rparr>"

text \<open>Its rows of the year 2020.\<close>

definition sample_table_2020 :: dataframe where
  "sample_table_2020 =
     \<lparr>nrows = 1,
      columns =
        [(''date'', [Time \<lparr>year = 2020, month = 1, day = 22\<rparr>]),
         (''confirmed'', [Val (JInt 1)]),
         (''deaths'', [Val (JInt 0)]),
         (''recovered'', [Val JNull]),
         (''year'', [Val (JInt 2020)])]\<rparr>"

text \<open>The table \<^verbatim>\<open>load_covid_data("USA")\<close> builds, and its rows of the year 2023.\<close>

definition sample_usa_table :: dataframe where
  "sample_usa_table =
     \<lparr>nrows = 3,
      columns =
        [(''date'', [Time \<lparr>year = 2020, month = 1, day = 22\<rparr>, Time \<lparr>year = 2023, month = 12, day = 30\<rparr>,
                     Time \<lparr>year = 2023, month = 12, day = 31\<rparr>]),
         (''confirmed'', [Val (JInt 1), Val (JInt 1234567), Val (JInt 1234000)]),
         (''deaths'', [Val (JInt 0), Val (JInt 4321), Val (JInt 4322)]),
         (''recovered'', [Val (JInt 0), Val (JInt 1000), Val (JInt 900)]),
         (''year'', [Val (JInt 2020), Val (JInt 2023), Val (JInt 2023)])]\<rparr>"

definition sample_usa_2023 :: dataframe where
  "sample_usa_2023 =
     \<lparr>nrows = 2,
      columns =
        [(''date'', [Time \<lparr>year = 2023, month = 12, day = 30\<rparr>, Time \<lparr>year = 2023, month = 12, day = 31\<rparr>]),
         (''confirmed'', [Val (JInt 1234567), Val (JInt 1234000)]),
         (''deaths'', [Val (JInt 4321), Val (JInt 4322)]),
         (''recovered'', [Val (JInt 1000), Val (JInt 900)]),
         (''year'', [Val (JInt 2023), Val (JInt 2023)])]\<rparr>"

text \<open>The table \<^verbatim>\<open>load_country_data()\<close> builds from the snapshot list.\<close>

definition sample_snapshot :: dataframe where
  "sample_snapshot =
     \<lparr>nrows = 2,
      columns =
        [(''country'', [Val (JStr ''USA''), Val (JStr ''Diamond Princess'')]),
         (''cases'', [Val (JInt 100), Val (JInt 7)]),
         (''deaths'', [Val (JInt 3), Val (JInt 1)]),
         (''recovered'', [Val (JInt 90), Val (JInt 6)]),
         (''lat'', [Val (JInt 38), Val JNull]),
         (''long'', [Val (JInt (- 97)), Val (JInt 139)])]\<rparr>"

text \<open>A global history whose first count of cases is \<^verbatim>\<open>null\<close>, the network that
  answers with it, and the table \<^verbatim>\<open>load_covid_data(None)\<close> builds from it.\<close>

definition sample_null_global :: "(string \<times> json) list" where
  "sample_null_global =
     [(''cases'', JObj [(''1/22/20'', JNull), (''1/22/21'', JInt 5)]),
      (''deaths'', JObj [(''1/22/20'', JInt 0), (''1/22/21'', JInt 1)])]"

definition null_count_net :: network where
  "null_count_net url = Inr \<lparr>status_code = 200, body = Some (JObj sample_null_global)\<rparr>"

definition null_count_table :: dataframe where
  "null_count_table =
     \<lparr>nrows = 2,
      columns =
        [(''date'', [Time \<lparr>year = 2020, month = 1, day = 22\<rparr>, Time \<lparr>year = 2021, month = 1, day = 22\<rparr>]),
         (''confirmed'', [Val JNull, Val (JInt 5)]),
         (''deaths'', [Val (JInt 0), Val (JInt 1)]),
         (''recovered'', [Val JNull, Val JNull]),
         (''year'', [Val (JInt 2020), Val (JInt 2021)])]\<rparr>"

text \<open>Its rows of the year 2020.\<close>

definition null_count_2020 :: dataframe where
  "null_count_2020 =
     \<lparr>nrows = 1,
      columns =
        [(''date'', [Time \<lparr>year = 2020, month = 1, day = 22\<rparr>]),
         (''confirmed'', [Val JNull]),
         (''deaths'', [Val (JInt 0)]),
         (''recovered'', [Val JNull]),
         (''year'', [Val (JInt 2020)])]\<rparr>"

text \<open>The cache after the global history was stored at time 0.\<close>

definition sample_cache :: cache where
  "sample_cache = (\<lambda>k. None)(Covid None \<mapsto> \<lparr>stored_at = 0, table = sample_table\<rparr>)"

section \<open>Lemmas\<close>

lemma and_then_Inl [simp]: "and_then (Inl e) f = Inl e"
  by (simp add: and_then_def)

lemma and_then_Inr [simp]: "and_then (Inr x) f = f x"
  by (simp add: and_then_def)

lemma and_then_eq_Inr: "(and_then m f = Inr y) = (\<exists>x. m = Inr x \<and> f x = Inr y)"
  by (cases m) simp_all

lemma map_of_assign_same: "map_of (assign name xs cols) name = Some xs"
  by (induction cols) auto

lemma map_of_assign_other: "k \<noteq> name \<Longrightarrow> map_of (assign name xs cols) k = map_of cols k"
  by (induction cols) auto

lemma getitem_eq_Inr: "(getitem df name = Inr xs) = (map_of (columns df) name = Some xs)"
  by (simp add: getitem_def split: option.splits)

lemma setitem_eq_Inr:
  "(setitem name xs df = Inr df') = (length xs = nrows df \<and> df' = df\<lparr>columns := assign name xs (columns df)\<rparr>)"
  by (auto simp: setitem_def)

lemma wf_df_assign:
  "list_all (\<lambda>(k, ys). length ys = n) cols \<Longrightarrow> length xs = n \<Longrightarrow> list_all (\<lambda>(k, ys). length ys = n) (assign name xs cols)"
  by (induction cols) auto

lemma wf_df_setitem: "wf_df df \<Longrightarrow> setitem name xs df = Inr df' \<Longrightarrow> wf_df df'"
  by (auto simp: setitem_eq_Inr wf_df_def wf_df_assign)

lemma wf_df_column: "wf_df df \<Longrightarrow> map_of (columns df) name = Some xs \<Longrightarrow> length xs = nrows df"
  by (auto simp: wf_df_def list_all_iff dest: map_of_SomeD)

lemma select_map: "select keep (map f xs) = map f (select keep xs)"
  by (simp add: select_def zip_map2 filter_map o_def split_def)

lemma select_map_map: "select (map g xs) (map f xs) = map f (filter g xs)"
  by (induction xs) (simp_all add: select_def)

lemma length_select: "length keep = length xs \<Longrightarrow> length (select keep xs) = length (filter id keep)"
proof -
  assume "length keep = length xs"
  then have "map fst (filter fst (zip keep xs)) = filter id keep"
    by (induction keep xs rule: list_induct2) simp_all
  then show ?thesis
    by (metis length_map select_def)
qed

lemma select_nth_indices: "select keep xs = map ((!) xs) (select keep [0..<length xs])"
proof -
  have "select keep xs = select keep (map ((!) xs) [0..<length xs])"
    by (simp add: map_nth)
  then show ?thesis
    by (simp only: select_map)
qed

lemma set_select_indices: "set (select keep [0..<n]) \<subseteq> {0..<n}"
  by (auto simp: select_def dest: set_zip_rightD)

lemma rows_of_boolean_index:
  assumes "wf_df df" "length keep = nrows df"
  shows "rows_of (boolean_index keep df) = select keep (rows_of df)"
proof -
  define idx where "idx = select keep [0..<nrows df]"
  have len: "length (filter id keep) = length idx"
    using assms(2) by (simp add: idx_def length_select)
  have cols: "map (\<lambda>(k, xs). (k, select keep xs)) (columns df) = map (\<lambda>(k, xs). (k, map ((!) xs) idx)) (columns df)"
  proof (rule map_cong [OF refl])
    fix c assume "c \<in> set (columns df)"
    then have "length (snd c) = nrows df"
      using assms(1) by (auto simp: wf_df_def list_all_iff)
    then show "(case c of (k, xs) \<Rightarrow> (k, select keep xs)) = (case c of (k, xs) \<Rightarrow> (k, map ((!) xs) idx))"
      using select_nth_indices [of keep "snd c"] by (simp add: idx_def split_def)
  qed
  have bi: "boolean_index keep df = \<lparr>nrows = length idx, columns = map (\<lambda>(k, xs). (k, map ((!) xs) idx)) (columns df)\<rparr>"
    unfolding boolean_index_def cols len ..
  have "rows_of (boolean_index keep df) =
        map (\<lambda>j. map (\<lambda>(k, xs). (k, xs ! (idx ! j))) (columns df)) [0..<length idx]"
    unfolding bi by (simp add: rows_of_def o_def split_def)
  also have "\<dots> = map (\<lambda>i. map (\<lambda>(k, xs). (k, xs ! i)) (columns df)) (map ((!) idx) [0..<length idx])"
    by (simp add: o_def)
  also have "\<dots> = map (\<lambda>i. map (\<lambda>(k, xs). (k, xs ! i)) (columns df)) idx"
    by (simp only: map_nth)
  also have "\<dots> = select keep (rows_of df)"
    by (simp add: idx_def rows_of_def select_map)
  finally show ?thesis .
qed

lemma wf_df_boolean_index:
  assumes "wf_df df" "length keep = nrows df"
  shows "wf_df (boolean_index keep df)"
  using assms by (auto simp: wf_df_def boolean_index_def list_all_iff length_select)

lemma those_map_year_of_cell: "those (map (\<lambda>t. year_of_cell (date_cell t)) ts) = Some (map year_cell ts)"
  by (induction ts) (auto simp: date_cell_def year_cell_def split: option.splits)

lemma dt_year_date_cells: "dt_year (map date_cell ts) = Inr (map year_cell ts)"
  by (simp add: dt_year_def o_def those_map_year_of_cell)

lemma restrict_years_eq_Inr:
  "(restrict_years pd df = Inr df') =
   (\<exists>raw ts. map_of (columns df) ''date'' = Some raw \<and> pd raw = Inr ts \<and> length ts = nrows df \<and>
      df' = boolean_index (map in_2020_2023 (map year_cell ts)) (with_dates ts df))"
  by (auto simp: restrict_years_def with_dates_def and_then_eq_Inr getitem_eq_Inr setitem_eq_Inr
      map_of_assign_same dt_year_date_cells)

lemma wf_df_with_dates: "wf_df df \<Longrightarrow> length ts = nrows df \<Longrightarrow> wf_df (with_dates ts df)"
  by (simp add: with_dates_def wf_df_def wf_df_assign)

lemma nrows_with_dates [simp]: "nrows (with_dates ts df) = nrows df"
  by (simp add: with_dates_def)

lemma map_of_with_dates:
  "map_of (columns (with_dates ts df)) ''date'' = Some (map date_cell ts)"
  "map_of (columns (with_dates ts df)) ''year'' = Some (map year_cell ts)"
  by (simp_all add: with_dates_def map_of_assign_same map_of_assign_other)

lemma set_select: "set (select keep xs) = {xs ! i | i. i < length xs \<and> i < length keep \<and> keep ! i}"
  by (force simp: select_def set_zip)

lemma map_of_row:
  "map_of (map (\<lambda>(k, xs). (k, xs ! i)) cols) name = map_option (\<lambda>xs. xs ! i) (map_of cols name)"
  by (induction cols) auto

lemma in_2020_2023_year_cell:
  "in_2020_2023 (year_cell t) = (\<exists>s. t = Some s \<and> 2020 \<le> year s \<and> year s \<le> 2023)"
  by (cases t) (simp_all add: year_cell_def)

lemma length_rows_of [simp]: "length (rows_of df) = nrows df"
  by (simp add: rows_of_def)

lemma restrict_years_rows:
  assumes "restrict_years pd df = Inr df'" "wf_df df"
  shows "list_all row_in_range (rows_of df')"
proof -
  from assms(1) obtain raw ts where ts: "length ts = nrows df"
    and df': "df' = boolean_index (map in_2020_2023 (map year_cell ts)) (with_dates ts df)"
    by (auto simp: restrict_years_eq_Inr)
  have wf: "wf_df (with_dates ts df)"
    using assms(2) ts by (rule wf_df_with_dates)
  have rows: "rows_of df' = select (map in_2020_2023 (map year_cell ts)) (rows_of (with_dates ts df))"
    unfolding df' using wf ts by (simp add: rows_of_boolean_index)
  show ?thesis
    unfolding list_all_iff
  proof
    fix r assume "r \<in> set (rows_of df')"
    then have "r \<in> set (select (map in_2020_2023 (map year_cell ts)) (rows_of (with_dates ts df)))"
      by (simp only: rows)
    then obtain i where i: "i < nrows df" "in_2020_2023 (year_cell (ts ! i))"
      and r: "r = rows_of (with_dates ts df) ! i"
      using ts by (auto simp: set_select length_rows_of)
    from i(2) obtain s where s: "ts ! i = Some s" "2020 \<le> year s" "year s \<le> 2023"
      by (auto simp: in_2020_2023_year_cell)
    have "map_of r ''date'' = Some (Time s)" "map_of r ''year'' = Some (Val (JInt (year s)))"
      using i(1) ts s(1)
      by (simp_all add: r rows_of_def map_of_row map_of_with_dates date_cell_def year_cell_def)
    with s show "row_in_range r"
      by (auto simp: row_in_range_def)
  qed
qed

lemma in_set_map_filter: "x \<in> set xs \<Longrightarrow> f x = Some y \<Longrightarrow> y \<in> set (List.map_filter f xs)"
  by (induction xs) (auto split: option.splits)

lemma DataFrame_wf: "DataFrame d = Inr df \<Longrightarrow> wf_df df"
proof -
  assume a: "DataFrame d = Inr df"
  then obtain n where n: "remdups (List.map_filter (\<lambda>(k, v). map_option length v) d) = [n]"
    and df: "df = \<lparr>nrows = n, columns = map (\<lambda>(k, v). (k, case v of None \<Rightarrow> replicate n (Val JNull) | Some xs \<Rightarrow> xs)) d\<rparr>"
    by (auto simp: DataFrame_def split: list.splits)
  have "set (List.map_filter (\<lambda>(k, v). map_option length v) d) = {n}"
    using n by (metis list.set(1) list.simps(15) set_remdups)
  then have "\<And>k xs. (k, Some xs) \<in> set d \<Longrightarrow> length xs = n"
    using in_set_map_filter [of _ d "\<lambda>(k, v). map_option length v"] by force
  then show ?thesis
    by (auto simp: df wf_df_def list_all_iff split: option.splits)
qed

lemma DataFrame_records_wf: "DataFrame_records j = Inr df \<Longrightarrow> wf_df df"
  by (cases j) (auto simp: wf_df_def list_all_iff split: option.splits)

lemma history_frame_wf: "history_frame d = Inr df \<Longrightarrow> wf_df df"
  by (auto simp: history_frame_def and_then_eq_Inr dest: DataFrame_wf)

lemma load_covid_data_Inr:
  assumes "load_covid_data pd net country log = (Inr df, log')"
  shows "\<exists>df0. wf_df df0 \<and> restrict_years pd df0 = Inr df"
  using assms
  by (auto simp: load_covid_data_def requests_get_def and_then_eq_Inr split: if_splits dest: history_frame_wf)

lemma load_vaccine_data_Inr:
  assumes "load_vaccine_data pd net c log = (Inr df, log')"
  shows "df = \<lparr>nrows = 0, columns = [(''date'', []), (''total'', [])]\<rparr> \<or>
         (\<exists>df0. wf_df df0 \<and> restrict_years pd df0 = Inr df)"
  using assms
  by (auto simp: load_vaccine_data_def requests_get_def and_then_eq_Inr split: if_splits dest: DataFrame_records_wf)

lemma history_frame_eq:
  assumes "map_of d ''cases'' = Some (JObj cs)" "map_of d ''deaths'' = Some (JObj ds)"
    and "map_of d ''recovered'' = map_option JObj rec"
    and "length ds = length cs" "case rec of None \<Rightarrow> True | Some rs \<Rightarrow> length rs = length cs"
  shows "history_frame (JObj d) =
         Inr \<lparr>nrows = length cs,
              columns = [(''date'', map (\<lambda>kv. Val (JStr (fst kv))) cs),
                         (''confirmed'', map (\<lambda>kv. Val (snd kv)) cs),
                         (''deaths'', map (\<lambda>kv. Val (snd kv)) ds),
                         (''recovered'', series_cells rec (length cs))]\<rparr>"
  using assms
  by (cases rec) (simp_all add: history_frame_def DataFrame_def series_cells_def o_def)

lemma length_series_cells:
  "(case rec of None \<Rightarrow> True | Some rs \<Rightarrow> length rs = n) \<Longrightarrow> length (series_cells rec n) = n"
  by (cases rec) (simp_all add: series_cells_def)

lemma restrict_years_eq:
  assumes "map_of (columns df) ''date'' = Some raw" "pd raw = Inr ts" "length ts = nrows df"
  shows "restrict_years pd df = Inr (boolean_index (map in_2020_2023 (map year_cell ts)) (with_dates ts df))"
  using assms by (auto simp: restrict_years_eq_Inr)

lemma rows_of_history:
  assumes "length ds = length cs" "case rec of None \<Rightarrow> True | Some rs \<Rightarrow> length rs = length cs"
    and "length ts = length cs"
  shows "rows_of (with_dates ts \<lparr>nrows = length cs,
              columns = [(''date'', map (\<lambda>kv. Val (JStr (fst kv))) cs),
                         (''confirmed'', map (\<lambda>kv. Val (snd kv)) cs),
                         (''deaths'', map (\<lambda>kv. Val (snd kv)) ds),
                         (''recovered'', series_cells rec (length cs))]\<rparr>)
         = map (history_row ts cs ds rec) [0..<length cs]"
  using assms
  by (cases rec) (simp_all add: rows_of_def with_dates_def history_row_def series_cells_def)

lemma keep_as_indices: "map p ts = map (\<lambda>i. p (ts ! i)) [0..<length ts]"
  by (rule nth_equalityI) simp_all

subsection \<open>Tables from a list of objects\<close>

lemma set_first_seen [simp]: "set (first_seen ks) = set ks"
  by (simp add: first_seen_def)

lemma map_of_keyed: "map_of (map (\<lambda>k. (k, f k)) ks) k = (if k \<in> set ks then Some (f k) else None)"
  by (induction ks) auto

lemma those_map_as_object: "those (map (as_object \<circ> JObj) rows) = Some rows"
  by (induction rows) simp_all

lemma DataFrame_records_objects:
  "DataFrame_records (JArr (map JObj rows)) =
     Inr \<lparr>nrows = length rows,
          columns = map (\<lambda>k. (k, map (record_cell k) rows)) (first_seen (concat (map (map fst) rows)))\<rparr>"
  by (simp add: those_map_as_object)

lemma key_of_some_row:
  "list_ex (\<lambda>r. map_of r k \<noteq> None) rows \<Longrightarrow> k \<in> set (first_seen (concat (map (map fst) rows)))"
proof -
  assume "list_ex (\<lambda>r. map_of r k \<noteq> None) rows"
  then obtain r v where "r \<in> set rows" "map_of r k = Some v"
    by (auto simp: list_ex_iff)
  then have "r \<in> set rows" "k \<in> fst ` set r"
    by (auto dest: map_of_SomeD intro: rev_image_eqI)
  then show ?thesis
    by auto
qed

lemma those_cell_get:
  "list_all has_geo rows \<Longrightarrow>
   those (map (cell_get k \<circ> record_cell ''countryInfo'') rows) = Some (map (geo_cell k) rows)"
  by (induction rows)
     (auto simp: has_geo_def geo_cell_def record_cell_def split: option.splits json.splits)

lemma apply_get_geo:
  "list_all has_geo rows \<Longrightarrow> apply_get k (map (record_cell ''countryInfo'') rows) = Inr (map (geo_cell k) rows)"
  by (simp add: apply_get_def those_cell_get)

subsection \<open>Selected rows, maxima, the metric cards\<close>

lemma map_of_map_values:
  "map_of (map (\<lambda>(k, xs). (k, f xs)) cols) name = map_option f (map_of cols name)"
  by (induction cols) auto

lemma map_of_boolean_index:
  "map_of (columns (boolean_index keep df)) name = map_option (select keep) (map_of (columns df) name)"
  by (simp add: boolean_index_def map_of_map_values)

lemma set_select_subset: "set (select keep xs) \<subseteq> set xs"
  by (auto simp: select_def dest: set_zip_rightD)

lemma select_replicate:
  "length keep = n \<Longrightarrow> select keep (replicate n x) = replicate (length (filter id keep)) x"
proof -
  assume n: "length keep = n"
  have "replicate n x = map (\<lambda>_. x) [0..<n]"
    by (simp add: map_replicate_const)
  then have "select keep (replicate n x) = map (\<lambda>_. x) (select keep [0..<n])"
    by (simp only: select_map)
  also have "\<dots> = replicate (length (select keep [0..<n])) x"
    by (simp add: map_replicate_const)
  also have "length (select keep [0..<n]) = length (filter id keep)"
    using n by (simp add: length_select)
  finally show ?thesis .
qed

lemma those_int_cells: "those (map (int_of_cell \<circ> (\<lambda>i. Val (JInt i))) xs) = Some xs"
  by (induction xs) simp_all

lemma fold_max_Max: "fold max is (i::int) = Max (set (i # is))"
  by (simp only: Max.set_eq_fold)

lemma int_max_ints:
  assumes "filter notna cs = map (\<lambda>i. Val (JInt i)) xs" "xs \<noteq> []"
  shows "int_max cs = Inr (Max (set xs))"
proof -
  from assms(2) obtain i "is" where xs: "xs = i # is"
    by (cases xs) auto
  have "those (map int_of_cell (filter notna cs)) = Some xs"
    by (simp add: assms(1) those_int_cells)
  then show ?thesis
    unfolding int_max_def xs by (simp add: fold_max_Max)
qed

lemma list_ex_notna: "list_ex notna rs = (filter notna rs \<noteq> [])"
  by (simp add: list_ex_iff filter_empty_conv)

lemma totals_eq:
  assumes "map_of (columns filtered) ''confirmed'' = Some cs"
    and "filter notna cs = map (\<lambda>i. Val (JInt i)) xs" and "xs \<noteq> []"
    and "map_of (columns filtered) ''deaths'' = Some ds"
    and "filter notna ds = map (\<lambda>i. Val (JInt i)) ys" and "ys \<noteq> []"
    and "map_of (columns filtered) ''recovered'' = Some rs"
    and "filter notna rs = map (\<lambda>i. Val (JInt i)) zs"
  shows "totals filtered = Inr (Max (set xs), Max (set ys), if zs = [] then None else Some (Max (set zs)))"
proof -
  have c: "int_max cs = Inr (Max (set xs))" using assms(2,3) by (rule int_max_ints)
  have d: "int_max ds = Inr (Max (set ys))" using assms(5,6) by (rule int_max_ints)
  show ?thesis
  proof (cases "zs = []")
    case True
    then have "\<not> list_ex notna rs"
      using assms(8) by (simp add: list_ex_notna)
    then show ?thesis
      using True assms(1,4,7) c d by (simp add: totals_def getitem_def)
  next
    case False
    then have "list_ex notna rs"
      using assms(8) by (simp add: list_ex_notna)
    moreover have "int_max rs = Inr (Max (set zs))"
      using assms(8) False by (rule int_max_ints)
    ultimately show ?thesis
      using False assms(1,4,7) c d by (simp add: totals_def getitem_def)
  qed
qed

lemma totals_recovered_missing:
  assumes "totals filtered = Inr t" "map_of (columns filtered) ''recovered'' = Some rs"
    and "list_all (\<lambda>c. c = Val JNull) rs"
  shows "snd (snd t) = None"
proof -
  from assms(3) have "\<not> list_ex notna rs"
    by (auto simp: list_ex_iff list_all_iff notna_def)
  with assms(1,2) show ?thesis
    by (auto simp: totals_def and_then_eq_Inr getitem_eq_Inr)
qed

lemma history_section_recovered_missing:
  assumes "history_section df country_input yi = Inr ws"
    and "map_of (columns df) ''recovered'' = Some rs" "list_all (\<lambda>c. c = Val JNull) rs"
  shows "\<exists>a b filtered title.
           ws = [Metric ''Total Confirmed'' a, Metric ''Total Deaths'' b, Metric ''Total Recovered'' ''N/A'',
                 LineChart filtered ''date'' [''confirmed'', ''deaths''] title]"
proof -
  from assms(1) obtain years filtered t where
    f: "filter_year (selectbox years yi) df = Inr filtered" and t: "totals filtered = Inr t"
    and ws: "ws = metric_cards t @ [trend_chart filtered (snd (snd t)) country_input (selectbox years yi)]"
    by (auto simp: history_section_def and_then_eq_Inr)
  from f obtain keep where "filtered = boolean_index keep df"
    by (auto simp: filter_year_def and_then_eq_Inr)
  then have rec: "map_of (columns filtered) ''recovered'' = Some (select keep rs)"
    using assms(2) by (simp add: map_of_boolean_index)
  have "list_all (\<lambda>c. c = Val JNull) (select keep rs)"
    using assms(3) set_select_subset [of keep rs] by (auto simp: list_all_iff)
  with t rec have "snd (snd t) = None"
    by (rule totals_recovered_missing)
  then show ?thesis
    unfolding ws by (cases t) (simp add: metric_cards_def trend_chart_def y_cols_def)
qed

subsection \<open>Formatting\<close>

lemma filter_no_comma_group3:
  "filter (\<lambda>c. c \<noteq> CHR '','') (group3 ds) = filter (\<lambda>c. c \<noteq> CHR '','') ds"
  by (induction ds rule: group3.induct) simp_all

lemma digit_char_no_comma: "d < 10 \<Longrightarrow> digit_char d \<noteq> CHR '',''"
proof
  assume d: "d < 10" and "digit_char d = CHR '',''"
  then have "(of_char (digit_char d) :: nat) = of_char CHR '',''"
    by simp
  then show False
    using d by (simp add: digit_char_def)
qed

lemma str_nat_no_comma: "CHR '','' \<notin> set (str_nat n)"
proof (induction n rule: str_nat.induct)
  case (1 n)
  show ?case
  proof (cases "n < 10")
    case True
    then show ?thesis
      using digit_char_no_comma [of n] by (subst str_nat.simps) auto
  next
    case False
    then show ?thesis
      using 1 digit_char_no_comma [of "n mod 10"] by (subst str_nat.simps) auto
  qed
qed

lemma format_comma_digits: "filter (\<lambda>c. c \<noteq> CHR '','') (format_comma i) = str_int i"
proof -
  have "filter (\<lambda>c. c \<noteq> CHR '','') (str_nat n) = str_nat n" for n
    using str_nat_no_comma [of n] by (simp add: filter_id_conv) metis
  then have "filter (\<lambda>c. c \<noteq> CHR '','') (rev (group3 (rev (str_nat n)))) = str_nat n" for n
    by (simp add: filter_no_comma_group3 flip: rev_filter)
  then show ?thesis
    by (simp add: format_comma_def str_int_def)
qed

subsection \<open>The year choice\<close>

lemma those_all_Some: "those (map Some xs) = Some xs"
  by (induction xs) simp_all

lemma select_map_self: "select (map g xs) xs = filter g xs"
  using select_map_map [of g xs id] by simp

lemma cells_in_range_are_ints:
  "list_all in_2020_2023 cs \<Longrightarrow> \<exists>ys. cs = map (\<lambda>y. Val (JInt y)) ys"
proof (induction cs)
  case Nil
  then show ?case by simp
next
  case (Cons c cs)
  then obtain ys where ys: "cs = map (\<lambda>y. Val (JInt y)) ys"
    by auto
  from Cons.prems have "in_2020_2023 c"
    by simp
  then obtain y where "c = Val (JInt y)"
    by (auto elim: in_2020_2023.elims)
  with ys have "c # cs = map (\<lambda>y. Val (JInt y)) (y # ys)"
    by simp
  then show ?case ..
qed

lemma int_cells_are_ints:
  "list_all (\<lambda>c. int_of_cell c \<noteq> None) cs \<Longrightarrow> \<exists>xs. cs = map (\<lambda>i. Val (JInt i)) xs"
proof (induction cs)
  case Nil
  then show ?case by simp
next
  case (Cons c cs)
  then obtain xs where xs: "cs = map (\<lambda>i. Val (JInt i)) xs"
    by auto
  from Cons.prems have "int_of_cell c \<noteq> None"
    by simp
  then obtain i where "c = Val (JInt i)"
    by (auto elim: int_of_cell.elims)
  with xs have "c # cs = map (\<lambda>i. Val (JInt i)) (i # xs)"
    by simp
  then show ?case ..
qed

lemma int_max_all_ints:
  assumes "list_all (\<lambda>c. int_of_cell c \<noteq> None) cs" "cs \<noteq> []"
  shows "\<exists>m. int_max cs = Inr m"
proof -
  from assms(1) obtain xs where xs: "cs = map (\<lambda>i. Val (JInt i)) xs"
    using int_cells_are_ints by blast
  then have "filter notna cs = map (\<lambda>i. Val (JInt i)) xs"
    by (simp add: filter_map o_def notna_def)
  moreover have "xs \<noteq> []"
    using assms(2) xs by auto
  ultimately have "int_max cs = Inr (Max (set xs))"
    by (rule int_max_ints)
  then show ?thesis ..
qed

lemma load_covid_data_table:
  assumes "load_covid_data pd net country log = (Inr df, log')"
  shows "\<exists>raw ts. wf_df raw \<and> length ts = nrows raw \<and>
           df = boolean_index (map in_2020_2023 (map year_cell ts)) (with_dates ts raw)"
  using load_covid_data_Inr [OF assms] by (auto simp: restrict_years_eq_Inr)

lemma selectbox_member: "options \<noteq> [] \<Longrightarrow> \<exists>x. selectbox options i = Some x \<and> x \<in> set options"
  by (simp add: selectbox_def)

subsection \<open>The requests of one run\<close>

lemma load_country_data_log: "load_country_data net log = (r, l) \<Longrightarrow> l = log @ [url_countries]"
  by (auto simp: load_country_data_def requests_get_def)

lemma load_covid_data_log_global: "load_covid_data pd net None log = (r, l) \<Longrightarrow> l = log @ [url_historical_all]"
  by (auto simp: load_covid_data_def requests_get_def)

lemma load_covid_data_log_country:
  "lower c \<noteq> ''global'' \<Longrightarrow> load_covid_data pd net (Some c) log = (r, l) \<Longrightarrow> l = log @ [url_historical c]"
  by (auto simp: load_covid_data_def requests_get_def)

lemma load_vaccine_data_log: "load_vaccine_data pd net c log = (r, l) \<Longrightarrow> l = log @ [url_vaccine c]"
  by (auto simp: load_vaccine_data_def requests_get_def)

lemma vaccine_section_log:
  "c \<noteq> [] \<Longrightarrow> vaccine_section pd net (Some c) log = (r, l) \<Longrightarrow> l = log @ [url_vaccine c]"
  by (auto simp: vaccine_section_def split: prod.splits dest: load_vaccine_data_log)

lemma vaccine_section_None:
  "vaccine_section pd net None log = (Inr [Info ''Select a specific country to view vaccination data.''], log)"
  by (simp add: vaccine_section_def)

lemma country_options_plain:
  "list_all (\<lambda>c. c = ''Global'' \<or> (lower c \<noteq> ''global'' \<and> c \<noteq> [])) country_options"
  by code_simp

lemma country_option_plain:
  "c \<in> set country_options \<Longrightarrow> c \<noteq> ''Global'' \<Longrightarrow> lower c \<noteq> ''global'' \<and> c \<noteq> []"
  using country_options_plain by (auto simp: list_all_iff)

lemma url_vaccine_other: "url_vaccine x \<noteq> url_countries" "url_vaccine x \<noteq> url_historical_all"
  by (simp_all add: url_vaccine_def url_countries_def url_historical_all_def)

lemma main_global:
  assumes "selectbox country_options ci = Some ''Global''"
  shows "requests (main pd net ci yi) \<in> {[url_countries], [url_countries, url_historical_all]}"
    and "failure (main pd net ci yi) = None \<Longrightarrow>
           requests (main pd net ci yi) = [url_countries, url_historical_all] \<and>
           last (page (main pd net ci yi)) = Info ''Select a specific country to view vaccination data.''"
  using assms
  by (auto simp: main_def use_country_of_def vaccine_section_None
      split: prod.splits sum.splits dest!: load_country_data_log load_covid_data_log_global)

lemma main_country:
  assumes "selectbox country_options ci = Some c" "c \<noteq> ''Global''" "lower c \<noteq> ''global''" "c \<noteq> []"
  shows "requests (main pd net ci yi) \<in>
           {[url_countries], [url_countries, url_historical c], [url_countries, url_historical c, url_vaccine c]}"
    and "failure (main pd net ci yi) = None \<Longrightarrow>
           requests (main pd net ci yi) = [url_countries, url_historical c, url_vaccine c]"
proof -
  note l1 = load_country_data_log [of net "[]"]
  note l2 = load_covid_data_log_country [OF assms(3), of pd net]
  note l3 = vaccine_section_log [OF assms(4), of pd net]
  show "requests (main pd net ci yi) \<in>
           {[url_countries], [url_countries, url_historical c], [url_countries, url_historical c, url_vaccine c]}"
    using assms(1,2)
    by (auto simp: main_def use_country_of_def split: prod.splits sum.splits dest!: l1 l2 l3)
  show "failure (main pd net ci yi) = None \<Longrightarrow>
           requests (main pd net ci yi) = [url_countries, url_historical c, url_vaccine c]"
    using assms(1,2)
    by (auto simp: main_def use_country_of_def split: prod.splits sum.splits dest!: l1 l2 l3)
qed

subsection \<open>The cache\<close>

lemma run_call_log: "run_call pd net k log = (r, l) \<Longrightarrow> l = log @ [url_of k]"
proof (cases k)
  case (Covid country)
  assume "run_call pd net k log = (r, l)"
  with Covid show ?thesis
    by (auto simp: load_covid_data_def requests_get_def split: if_splits)
next
  case (Vaccine country)
  assume "run_call pd net k log = (r, l)"
  with Vaccine show ?thesis
    by (auto dest: load_vaccine_data_log)
next
  case Country
  assume "run_call pd net k log = (r, l)"
  with Country show ?thesis
    by (auto dest: load_country_data_log)
qed

lemma cached_miss:
  assumes "c k = None \<or> (\<exists>e. c k = Some e \<and> \<not> now - stored_at e < ttl)"
  shows "fst (cached pd net k now c log) = run_call pd net k log"
  using assms by (auto simp: cached_def cache_data_def split: prod.splits sum.splits)

lemma cached_hit:
  assumes "c k = Some e" "now - stored_at e < ttl"
  shows "cached pd net k now c log = ((Inr (table e), log), c)"
  using assms by (simp add: cached_def cache_data_def)

lemma cached_store:
  assumes "c k = None" "cached pd net k now c log = ((Inr df, l), c')"
  shows "c' = c(k \<mapsto> \<lparr>stored_at = now, table = df\<rparr>) \<and> run_call pd net k log = (Inr df, l)"
  using assms by (auto simp: cached_def cache_data_def split: prod.splits sum.splits)

subsection \<open>The sample responses, evaluated\<close>

lemma sample_dates:
  "to_datetime_mdy (map (\<lambda>kv. Val (JStr (fst kv))) sample_cases) =
   Inr [Some \<lparr>year = 2020, month = 1, day = 22\<rparr>, Some \<lparr>year = 2023, month = 12, day = 30\<rparr>,
        Some \<lparr>year = 2023, month = 12, day = 31\<rparr>, Some \<lparr>year = 2024, month = 1, day = 1\<rparr>]"
  by code_simp

lemma load_sample_global:
  "load_covid_data to_datetime_mdy sample_net None [] = (Inr sample_table, [url_historical_all])"
  by code_simp

lemma load_sample_vaccine:
  "load_vaccine_data to_datetime_mdy sample_net ''USA'' [] =
     (Inr \<lparr>nrows = 0, columns = [(''date'', []), (''total'', [])]\<rparr>, [url_vaccine ''USA''])"
  by code_simp

lemma load_sample_snapshot: "load_country_data sample_net [] = (Inr sample_snapshot, [url_countries])"
  by code_simp

lemma load_sample_usa:
  "load_covid_data to_datetime_mdy sample_net (Some ''USA'') [] = (Inr sample_usa_table, [url_historical ''USA''])"
  by code_simp

lemma sample_years:
  "available_years sample_table = Inr [2020, 2023]"
  "available_years sample_usa_table = Inr [2020, 2023]"
  by code_simp+

lemma sample_year_choice:
  "selectbox [2020, 2023 :: int] 0 = Some 2020" "selectbox [2020, 2023 :: int] 1 = Some 2023"
  by code_simp+

lemma sample_year_choice_Suc_0: "selectbox [2020, 2023 :: int] (Suc 0) = Some 2023"
  using sample_year_choice(2) by simp

lemma sample_filter_2020: "filter_year (Some 2020) sample_table = Inr sample_table_2020"
  by code_simp

lemma sample_filter_2023: "filter_year (Some 2023) sample_usa_table = Inr sample_usa_2023"
  by code_simp

lemma sample_totals_2020: "totals sample_table_2020 = Inr (1, 0, None)"
  by code_simp

lemma sample_cards_2020:
  "metric_cards (1, 0, None) =
     [Metric ''Total Confirmed'' ''1'', Metric ''Total Deaths'' ''0'', Metric ''Total Recovered'' ''N/A'']"
  by code_simp

lemma sample_chart_2020:
  "trend_chart sample_table_2020 None (Some ''Global'') (Some 2020) =
     LineChart sample_table_2020 ''date'' [''confirmed'', ''deaths''] ''Cumulative COVID-19 Trends: Global (2020)''"
  by code_simp

lemma sample_chart_2023:
  "trend_chart sample_usa_2023 (Some 1000) (Some ''USA'') (Some 2023) =
     LineChart sample_usa_2023 ''date'' [''confirmed'', ''deaths'', ''recovered'']
       ''Cumulative COVID-19 Trends: USA (2023)''"
  by code_simp

lemma sample_history_section:
  "history_section sample_table (Some ''Global'') 0 =
     Inr [Metric ''Total Confirmed'' ''1'', Metric ''Total Deaths'' ''0'', Metric ''Total Recovered'' ''N/A'',
          LineChart sample_table_2020 ''date'' [''confirmed'', ''deaths'']
            ''Cumulative COVID-19 Trends: Global (2020)'']"
  by (simp add: history_section_def sample_years sample_year_choice sample_filter_2020 sample_totals_2020
      sample_cards_2020 sample_chart_2020)

lemma digit_chars:
  "digit_char 0 = CHR ''0''" "digit_char 1 = CHR ''1''" "digit_char 2 = CHR ''2''"
  "digit_char 3 = CHR ''3''" "digit_char 4 = CHR ''4''" "digit_char 5 = CHR ''5''"
  "digit_char 6 = CHR ''6''" "digit_char 7 = CHR ''7''" "digit_char 8 = CHR ''8''"
  "digit_char 9 = CHR ''9''"
  by code_simp+

lemma digit_char_Suc_0: "digit_char (Suc 0) = CHR ''1''"
  using digit_chars(2) by simp

lemma sample_formats:
  "format_comma 1234567 = ''1,234,567''" "format_comma 4322 = ''4,322''" "format_comma 1000 = ''1,000''"
  by (simp_all add: format_comma_def str_nat.simps digit_chars digit_char_Suc_0)

lemma sample_choice:
  "selectbox country_options 0 = Some ''Global''" "selectbox country_options 1 = Some ''USA''"
  by code_simp+

lemma sample_choice_Suc_0: "selectbox country_options (Suc 0) = Some ''USA''"
  using sample_choice(2) by simp

lemma load_sample_global_after:
  "load_covid_data to_datetime_mdy sample_net None [url_countries] =
     (Inr sample_table, [url_countries, url_historical_all])"
  by code_simp

lemma load_sample_usa_after:
  "load_covid_data to_datetime_mdy sample_net (Some ''USA'') [url_countries] =
     (Inr sample_usa_table, [url_countries, url_historical ''USA''])"
  by code_simp

lemma sample_totals_2023: "totals sample_usa_2023 = Inr (1234567, 4322, Some 1000)"
  by code_simp

lemma sample_usa_history_section:
  "history_section sample_usa_table (Some ''USA'') (Suc 0) =
     Inr [Metric ''Total Confirmed'' ''1,234,567'', Metric ''Total Deaths'' ''4,322'',
          Metric ''Total Recovered'' ''1,000'',
          LineChart sample_usa_2023 ''date'' [''confirmed'', ''deaths'', ''recovered'']
            ''Cumulative COVID-19 Trends: USA (2023)'']"
  by (simp add: history_section_def sample_years sample_year_choice_Suc_0 sample_filter_2023
      sample_totals_2023 metric_cards_def sample_formats sample_chart_2023)

lemma sample_vaccine_section:
  "vaccine_section to_datetime_mdy sample_net (Some ''USA'') [url_countries, url_historical ''USA''] =
     (Inr [Warning ''No vaccination data available for USA.''],
      [url_countries, url_historical ''USA'', url_vaccine ''USA''])"
  by code_simp

lemma sample_use_country:
  "use_country_of (Some ''Global'') = None" "use_country_of (Some ''USA'') = Some ''USA''"
  by (simp_all add: use_country_of_def)

lemma main_sample_global:
  "main to_datetime_mdy sample_net 0 0 =
     \<lparr>requests = [url_countries, url_historical_all],
      page = [ScatterGeo sample_snapshot,
              Metric ''Total Confirmed'' ''1'', Metric ''Total Deaths'' ''0'', Metric ''Total Recovered'' ''N/A'',
              LineChart sample_table_2020 ''date'' [''confirmed'', ''deaths'']
                ''Cumulative COVID-19 Trends: Global (2020)'',
              Info ''Select a specific country to view vaccination data.''],
      failure = None\<rparr>"
  by (simp add: main_def load_sample_snapshot sample_choice sample_use_country load_sample_global_after
      sample_history_section vaccine_section_None)

lemma main_sample_usa:
  "main to_datetime_mdy sample_net (Suc 0) (Suc 0) =
     \<lparr>requests = [url_countries, url_historical ''USA'', url_vaccine ''USA''],
      page = [ScatterGeo sample_snapshot,
              Metric ''Total Confirmed'' ''1,234,567'', Metric ''Total Deaths'' ''4,322'',
              Metric ''Total Recovered'' ''1,000'',
              LineChart sample_usa_2023 ''date'' [''confirmed'', ''deaths'', ''recovered'']
                ''Cumulative COVID-19 Trends: USA (2023)'',
              Warning ''No vaccination data available for USA.''],
      failure = None\<rparr>"
  by (simp add: main_def load_sample_snapshot sample_choice_Suc_0 sample_use_country load_sample_usa_after
      sample_usa_history_section sample_vaccine_section)

lemma sample_integer_columns:
  "integer_column sample_table ''confirmed''" "integer_column sample_table ''deaths''"
  by code_simp+

lemma sample_maxima_2020:
  "and_then (getitem sample_table_2020 ''confirmed'') int_max = Inr 1"
  "and_then (getitem sample_table_2020 ''deaths'') int_max = Inr 0"
  by code_simp+

lemma load_null_count:
  "load_covid_data to_datetime_mdy null_count_net None [] = (Inr null_count_table, [url_historical_all])"
  by code_simp

lemma null_count_years: "available_years null_count_table = Inr [2020, 2021]"
  by code_simp

lemma null_count_choice: "selectbox [2020, 2021 :: int] 0 = Some 2020"
  by code_simp

lemma null_count_filter: "filter_year (Some 2020) null_count_table = Inr null_count_2020"
  by code_simp

lemma null_count_totals: "totals null_count_2020 = Inl ValueError"
  by code_simp

lemma null_count_history_section:
  "history_section null_count_table (Some ''Global'') 0 = Inl ValueError"
  by (simp add: history_section_def null_count_years null_count_choice null_count_filter null_count_totals)

lemma cached_sample_first:
  "cached to_datetime_mdy sample_net (Covid None) 0 (\<lambda>k. None) [] =
     ((Inr sample_table, [url_historical_all]), sample_cache)"
  by (simp add: cached_def cache_data_def load_sample_global sample_cache_def)

section \<open>The claims\<close>

text \<open>
  C2. Every row of a history table (\<^verbatim>\<open>load_covid_data\<close>) and of a vaccination table
  (\<^verbatim>\<open>load_vaccine_data\<close>) has a parsed date and a year field that is the year of that
  date, and the year lies in 2020 to 2023 inclusive: no row outside that range is left.
  This holds whatever the date parser, the network and the argument are.
\<close>

theorem tables_within_2020_2023:
  assumes "load_covid_data pd net country log = (Inr df, log') \<or>
           load_vaccine_data pd net c log = (Inr df, log')"
  shows "\<forall>r \<in> set (rows_of df).
           \<exists>t. map_of r ''date'' = Some (Time t) \<and> map_of r ''year'' = Some (Val (JInt (year t))) \<and>
               2020 \<le> year t \<and> year t \<le> 2023"
proof -
  from assms have "df = \<lparr>nrows = 0, columns = [(''date'', []), (''total'', [])]\<rparr> \<or>
      (\<exists>df0. wf_df df0 \<and> restrict_years pd df0 = Inr df)"
    using load_covid_data_Inr load_vaccine_data_Inr by blast
  then show ?thesis
  proof
    assume "df = \<lparr>nrows = 0, columns = [(''date'', []), (''total'', [])]\<rparr>"
    then show ?thesis by (simp add: rows_of_def)
  next
    assume "\<exists>df0. wf_df df0 \<and> restrict_years pd df0 = Inr df"
    then have "list_all row_in_range (rows_of df)"
      using restrict_years_rows by blast
    then show ?thesis
      by (simp add: list_all_iff row_in_range_def)
  qed
qed

theorem tables_within_2020_2023_witness:
  "load_covid_data to_datetime_mdy sample_net None [] = (Inr sample_table, [url_historical_all]) \<and>
   rows_of sample_table \<noteq> [] \<and> list_all row_in_range (rows_of sample_table)"
proof -
  have e: "load_covid_data to_datetime_mdy sample_net None [] = (Inr sample_table, [url_historical_all])"
    by (rule load_sample_global)
  have "rows_of sample_table \<noteq> []"
    by (simp add: rows_of_def sample_table_def)
  with e tables_within_2020_2023 [OF disjI1 [OF e]] show ?thesis
    by (simp add: list_all_iff row_in_range_def)
qed

text \<open>
  C3. The global history table pairs the mappings by position: when the response holds
  the mappings \<open>cs\<close> (cases), \<open>ds\<close> (deaths) and possibly \<open>rec\<close> (recovered) of one
  length, and the parser turns the keys of \<open>cs\<close> into the dates \<open>ts\<close>, the table is
  built, and its rows are the rows \<open>history_row ts cs ds rec i\<close> for the positions
  \<open>i\<close> whose year is in 2020 to 2023, in order. Row \<open>i\<close> takes the date from key \<open>i\<close>
  of \<open>cs\<close> and the counts from entry \<open>i\<close> of each mapping; the keys of \<open>ds\<close> and
  \<open>rec\<close> are never read. The witness is the scenario of the specification: cases
  \<^verbatim>\<open>{"1/22/20": 1, ...}\<close> and deaths \<^verbatim>\<open>{"1/22/20": 0, ...}\<close> give the row with
  confirmed 1, deaths 0 and year 2020, and the row of 2024 is gone.
\<close>

theorem global_history_pairs_by_position:
  assumes "net url_historical_all = Inr resp"
    and "\<not> (400 \<le> status_code resp \<and> status_code resp < 600)"
    and "body resp = Some (JObj js)"
    and "map_of js ''cases'' = Some (JObj cs)"
    and "map_of js ''deaths'' = Some (JObj ds)"
    and "map_of js ''recovered'' = map_option JObj rec"
    and "length ds = length cs"
    and "case rec of None \<Rightarrow> True | Some rs \<Rightarrow> length rs = length cs"
    and "pd (map (\<lambda>kv. Val (JStr (fst kv))) cs) = Inr ts"
    and "length ts = length cs"
  shows "\<exists>df. load_covid_data pd net None log = (Inr df, log @ [url_historical_all]) \<and>
              rows_of df = map (history_row ts cs ds rec)
                             (filter (\<lambda>i. in_2020_2023 (year_cell (ts ! i))) [0..<length cs])"
proof -
  let ?raw = "\<lparr>nrows = length cs,
              columns = [(''date'', map (\<lambda>kv. Val (JStr (fst kv))) cs),
                         (''confirmed'', map (\<lambda>kv. Val (snd kv)) cs),
                         (''deaths'', map (\<lambda>kv. Val (snd kv)) ds),
                         (''recovered'', series_cells rec (length cs))]\<rparr>"
  let ?keep = "map in_2020_2023 (map year_cell ts)"
  let ?tab = "boolean_index ?keep (with_dates ts ?raw)"
  have frame: "history_frame (JObj js) = Inr ?raw"
    using assms(4-8) by (rule history_frame_eq)
  have wf0: "wf_df ?raw"
    using frame by (rule history_frame_wf)
  have restrict: "restrict_years pd ?raw = Inr ?tab"
    using assms(9,10) by (intro restrict_years_eq) simp_all
  have load: "load_covid_data pd net None log = (Inr ?tab, log @ [url_historical_all])"
    using assms(1-3) frame restrict
    by (simp add: load_covid_data_def requests_get_def raise_for_status_def resp_json_def)
  have wf1: "wf_df (with_dates ts ?raw)"
    using wf0 assms(10) by (intro wf_df_with_dates) simp_all
  have keep: "?keep = map (\<lambda>i. in_2020_2023 (year_cell (ts ! i))) [0..<length cs]"
    using assms(10) keep_as_indices [of "\<lambda>t. in_2020_2023 (year_cell t)" ts] by (simp add: o_def)
  have "rows_of ?tab = select ?keep (rows_of (with_dates ts ?raw))"
    using wf1 assms(10) by (intro rows_of_boolean_index) simp_all
  also have "\<dots> = select (map (\<lambda>i. in_2020_2023 (year_cell (ts ! i))) [0..<length cs])
                      (map (history_row ts cs ds rec) [0..<length cs])"
    using assms(7,8,10) by (simp only: keep rows_of_history)
  also have "\<dots> = map (history_row ts cs ds rec) (filter (\<lambda>i. in_2020_2023 (year_cell (ts ! i))) [0..<length cs])"
    by (rule select_map_map)
  finally have rows: "rows_of ?tab = map (history_row ts cs ds rec) (filter (\<lambda>i. in_2020_2023 (year_cell (ts ! i))) [0..<length cs])" .
  from load rows show ?thesis
    by (intro exI conjI)
qed

theorem global_history_pairs_by_position_witness:
  "load_covid_data to_datetime_mdy sample_net None [] = (Inr sample_table, [url_historical_all]) \<and>
   rows_of sample_table =
     [[(''date'', Time \<lparr>year = 2020, month = 1, day = 22\<rparr>), (''confirmed'', Val (JInt 1)),
       (''deaths'', Val (JInt 0)), (''recovered'', Val JNull), (''year'', Val (JInt 2020))],
      [(''date'', Time \<lparr>year = 2023, month = 12, day = 30\<rparr>), (''confirmed'', Val (JInt 1234567)),
       (''deaths'', Val (JInt 4321)), (''recovered'', Val JNull), (''year'', Val (JInt 2023))],
      [(''date'', Time \<lparr>year = 2023, month = 12, day = 31\<rparr>), (''confirmed'', Val (JInt 1234000)),
       (''deaths'', Val (JInt 4322)), (''recovered'', Val JNull), (''year'', Val (JInt 2023))]]"
proof -
  let ?ts = "[Some \<lparr>year = 2020, month = 1, day = 22\<rparr>, Some \<lparr>year = 2023, month = 12, day = 30\<rparr>,
              Some \<lparr>year = 2023, month = 12, day = 31\<rparr>, Some \<lparr>year = 2024, month = 1, day = 1\<rparr>]"
  have "\<exists>df. load_covid_data to_datetime_mdy sample_net None [] = (Inr df, [] @ [url_historical_all]) \<and>
          rows_of df = map (history_row ?ts sample_cases sample_deaths None)
                         (filter (\<lambda>i. in_2020_2023 (year_cell (?ts ! i))) [0..<length sample_cases])"
  proof (rule global_history_pairs_by_position)
    show "sample_net url_historical_all = Inr \<lparr>status_code = 200, body = Some (JObj sample_global)\<rparr>"
      by code_simp
    show "\<not> (400 \<le> status_code \<lparr>status_code = 200, body = Some (JObj sample_global)\<rparr> \<and>
             status_code \<lparr>status_code = 200, body = Some (JObj sample_global)\<rparr> < 600)"
      by simp
    show "body \<lparr>status_code = 200, body = Some (JObj sample_global)\<rparr> = Some (JObj sample_global)"
      by simp
    show "map_of sample_global ''cases'' = Some (JObj sample_cases)"
      by code_simp
    show "map_of sample_global ''deaths'' = Some (JObj sample_deaths)"
      by code_simp
    show "map_of sample_global ''recovered'' = map_option JObj None"
      by code_simp
    show "length sample_deaths = length sample_cases"
      by code_simp
    show "case None of None \<Rightarrow> True | Some rs \<Rightarrow> length rs = length sample_cases"
      by simp
    show "to_datetime_mdy (map (\<lambda>kv. Val (JStr (fst kv))) sample_cases) = Inr ?ts"
      by (rule sample_dates)
    show "length ?ts = length sample_cases"
      by code_simp
  qed
  then obtain df where df: "load_covid_data to_datetime_mdy sample_net None [] = (Inr df, [url_historical_all])"
    and rows: "rows_of df = map (history_row ?ts sample_cases sample_deaths None)
                         (filter (\<lambda>i. in_2020_2023 (year_cell (?ts ! i))) [0..<length sample_cases])"
    by auto
  from df have "df = sample_table"
    by (simp add: load_sample_global)
  moreover have "map (history_row ?ts sample_cases sample_deaths None)
                         (filter (\<lambda>i. in_2020_2023 (year_cell (?ts ! i))) [0..<length sample_cases]) =
     [[(''date'', Time \<lparr>year = 2020, month = 1, day = 22\<rparr>), (''confirmed'', Val (JInt 1)),
       (''deaths'', Val (JInt 0)), (''recovered'', Val JNull), (''year'', Val (JInt 2020))],
      [(''date'', Time \<lparr>year = 2023, month = 12, day = 30\<rparr>), (''confirmed'', Val (JInt 1234567)),
       (''deaths'', Val (JInt 4321)), (''recovered'', Val JNull), (''year'', Val (JInt 2023))],
      [(''date'', Time \<lparr>year = 2023, month = 12, day = 31\<rparr>), (''confirmed'', Val (JInt 1234000)),
       (''deaths'', Val (JInt 4322)), (''recovered'', Val JNull), (''year'', Val (JInt 2023))]]"
    by code_simp
  ultimately show ?thesis
    using df rows by simp
qed

text \<open>
  C1. The claim is that every fetch aborts on a non-success status. The two history
  paths and the vaccination path call \<^verbatim>\<open>raise_for_status\<close>; \<^verbatim>\<open>load_country_data\<close>
  does not. Answered with status 500 and a body that parses, it returns a table, where
  the other two loaders raise the HTTP error.
\<close>

theorem snapshot_ignores_status:
  "load_country_data server_error_net [] = (Inr sample_snapshot, [url_countries]) \<and>
   load_covid_data to_datetime_mdy server_error_net None [] = (Inl (HTTPError 500), [url_historical_all]) \<and>
   load_vaccine_data to_datetime_mdy server_error_net ''USA'' [] = (Inl (HTTPError 500), [url_vaccine ''USA''])"
  by code_simp

text \<open>
  C5. When the vaccination response of a country has no timeline entries (no
  \<^verbatim>\<open>timeline\<close> key, or an empty list under it), \<^verbatim>\<open>load_vaccine_data\<close> returns the
  table with no rows and exactly the columns \<^verbatim>\<open>date\<close> and \<^verbatim>\<open>total\<close>, not an error,
  and the vaccine section of the page is the one warning, with no chart.
\<close>

theorem vaccine_without_timeline:
  assumes "net (url_vaccine c) = Inr resp"
    and "\<not> (400 \<le> status_code resp \<and> status_code resp < 600)"
    and "body resp = Some (JObj js)"
    and "map_of js ''timeline'' = None \<or> map_of js ''timeline'' = Some (JArr [])"
    and "c \<noteq> []"
  shows "load_vaccine_data pd net c log =
           (Inr \<lparr>nrows = 0, columns = [(''date'', []), (''total'', [])]\<rparr>, log @ [url_vaccine c]) \<and>
         vaccine_section pd net (Some c) log =
           (Inr [Warning (''No vaccination data available for '' @ c @ ''.'')], log @ [url_vaccine c])"
proof -
  have data: "py_get (JObj js) ''timeline'' (JArr []) = Inr (JArr [])"
    using assms(4) by auto
  have load: "load_vaccine_data pd net c log =
           (Inr \<lparr>nrows = 0, columns = [(''date'', []), (''total'', [])]\<rparr>, log @ [url_vaccine c])"
    using assms(1-3) data
    by (simp add: load_vaccine_data_def requests_get_def raise_for_status_def resp_json_def)
  have "vaccine_section pd net (Some c) log =
           (Inr [Warning (''No vaccination data available for '' @ c @ ''.'')], log @ [url_vaccine c])"
    using assms(5) by (simp add: vaccine_section_def load empty_df_def)
  with load show ?thesis by simp
qed

theorem vaccine_without_timeline_witness:
  "load_vaccine_data to_datetime_mdy sample_net ''USA'' [] =
     (Inr \<lparr>nrows = 0, columns = [(''date'', []), (''total'', [])]\<rparr>, [url_vaccine ''USA'']) \<and>
   vaccine_section to_datetime_mdy sample_net (Some ''USA'') [] =
     (Inr [Warning ''No vaccination data available for USA.''], [url_vaccine ''USA''])"
proof -
  have "load_vaccine_data to_datetime_mdy sample_net ''USA'' [] =
           (Inr \<lparr>nrows = 0, columns = [(''date'', []), (''total'', [])]\<rparr>, [] @ [url_vaccine ''USA'']) \<and>
         vaccine_section to_datetime_mdy sample_net (Some ''USA'') [] =
           (Inr [Warning (''No vaccination data available for '' @ ''USA'' @ ''.'')], [] @ [url_vaccine ''USA''])"
  proof (rule vaccine_without_timeline)
    show "sample_net (url_vaccine ''USA'') = Inr \<lparr>status_code = 200, body = Some (JObj sample_vaccine_empty)\<rparr>"
      by code_simp
    show "\<not> (400 \<le> status_code \<lparr>status_code = 200, body = Some (JObj sample_vaccine_empty)\<rparr> \<and>
             status_code \<lparr>status_code = 200, body = Some (JObj sample_vaccine_empty)\<rparr> < 600)"
      by simp
    show "body \<lparr>status_code = 200, body = Some (JObj sample_vaccine_empty)\<rparr> = Some (JObj sample_vaccine_empty)"
      by simp
    show "map_of sample_vaccine_empty ''timeline'' = None \<or> map_of sample_vaccine_empty ''timeline'' = Some (JArr [])"
      by code_simp
    show "''USA'' \<noteq> []"
      by simp
  qed
  then show ?thesis
    by simp
qed

text \<open>
  C7. When the snapshot response is a list of objects, each with a dict under
  \<^verbatim>\<open>countryInfo\<close>, and each of \<^verbatim>\<open>country\<close>, \<^verbatim>\<open>cases\<close>, \<^verbatim>\<open>deaths\<close>,
  \<^verbatim>\<open>recovered\<close> is a key of some object, \<^verbatim>\<open>load_country_data\<close> returns the table with
  exactly the six columns country, cases, deaths, recovered, lat, long, one row per
  object; lat and long are read out of the nested \<^verbatim>\<open>countryInfo\<close> (\<open>geo_cell\<close>), so
  a row whose geographic info has no \<^verbatim>\<open>lat\<close> key has the missing value there and no
  error is raised. In the witness the second country has no \<^verbatim>\<open>lat\<close>.
\<close>

theorem snapshot_six_fields:
  assumes "net url_countries = Inr resp"
    and "body resp = Some (JArr (map JObj rows))"
    and "list_all has_geo rows"
    and "list_all (\<lambda>k. list_ex (\<lambda>r. map_of r k \<noteq> None) rows) [''country'', ''cases'', ''deaths'', ''recovered'']"
  shows "load_country_data net log =
           (Inr \<lparr>nrows = length rows,
                 columns = [(''country'', map (record_cell ''country'') rows),
                            (''cases'', map (record_cell ''cases'') rows),
                            (''deaths'', map (record_cell ''deaths'') rows),
                            (''recovered'', map (record_cell ''recovered'') rows),
                            (''lat'', map (geo_cell ''lat'') rows),
                            (''long'', map (geo_cell ''long'') rows)]\<rparr>,
            log @ [url_countries])"
proof -
  let ?keys = "first_seen (concat (map (map fst) rows))"
  let ?cols = "map (\<lambda>k. (k, map (record_cell k) rows)) ?keys"
  let ?table = "\<lparr>nrows = length rows, columns = ?cols\<rparr>"
  have table: "DataFrame_records (JArr (map JObj rows)) = Inr ?table"
    by (rule DataFrame_records_objects)
  have keys: "''country'' \<in> set ?keys" "''cases'' \<in> set ?keys" "''deaths'' \<in> set ?keys"
    "''recovered'' \<in> set ?keys"
  proof -
    from assms(4) have ex: "list_ex (\<lambda>r. map_of r ''country'' \<noteq> None) rows"
      "list_ex (\<lambda>r. map_of r ''cases'' \<noteq> None) rows"
      "list_ex (\<lambda>r. map_of r ''deaths'' \<noteq> None) rows"
      "list_ex (\<lambda>r. map_of r ''recovered'' \<noteq> None) rows"
      by simp_all
    show "''country'' \<in> set ?keys" using ex(1) by (rule key_of_some_row)
    show "''cases'' \<in> set ?keys" using ex(2) by (rule key_of_some_row)
    show "''deaths'' \<in> set ?keys" using ex(3) by (rule key_of_some_row)
    show "''recovered'' \<in> set ?keys" using ex(4) by (rule key_of_some_row)
  qed
  from assms(4) obtain r where r: "r \<in> set rows"
    by (auto simp: list_ex_iff)
  with assms(3) have "has_geo r"
    by (simp add: list_all_iff)
  then have "map_of r ''countryInfo'' \<noteq> None"
    by (auto simp: has_geo_def split: option.splits)
  with r have "list_ex (\<lambda>r. map_of r ''countryInfo'' \<noteq> None) rows"
    by (auto simp: list_ex_iff)
  then have info: "''countryInfo'' \<in> set ?keys"
    by (rule key_of_some_row)
  have col: "\<And>k. k \<in> set ?keys \<Longrightarrow> map_of ?cols k = Some (map (record_cell k) rows)"
    by (simp add: map_of_keyed)
  have lat: "apply_get ''lat'' (map (record_cell ''countryInfo'') rows) = Inr (map (geo_cell ''lat'') rows)"
    and long: "apply_get ''long'' (map (record_cell ''countryInfo'') rows) = Inr (map (geo_cell ''long'') rows)"
    using assms(3) by (simp_all add: apply_get_geo)
  have pick: "pick_columns [''country'', ''cases'', ''deaths'', ''recovered'', ''lat'', ''long'']
          (assign ''long'' (map (geo_cell ''long'') rows) (assign ''lat'' (map (geo_cell ''lat'') rows) ?cols)) =
        Inr [(''country'', map (record_cell ''country'') rows),
             (''cases'', map (record_cell ''cases'') rows),
             (''deaths'', map (record_cell ''deaths'') rows),
             (''recovered'', map (record_cell ''recovered'') rows),
             (''lat'', map (geo_cell ''lat'') rows),
             (''long'', map (geo_cell ''long'') rows)]"
    using keys by (simp add: map_of_assign_same map_of_assign_other col)
  show ?thesis
    using assms(1,2) info
    by (simp add: load_country_data_def requests_get_def resp_json_def table getitem_def setitem_def
        col lat long map_of_assign_other getitems_def pick del: pick_columns.simps DataFrame_records.simps)
qed

theorem snapshot_six_fields_witness:
  "load_country_data sample_net [] = (Inr sample_snapshot, [url_countries]) \<and>
   map fst (columns sample_snapshot) = [''country'', ''cases'', ''deaths'', ''recovered'', ''lat'', ''long''] \<and>
   map_of (sample_countries ! 1) ''countryInfo'' = Some (JObj [(''iso2'', JNull), (''long'', JInt 139)]) \<and>
   map_of (columns sample_snapshot) ''lat'' = Some [Val (JInt 38), Val JNull]"
proof -
  have "load_country_data sample_net [] =
           (Inr \<lparr>nrows = length sample_countries,
                 columns = [(''country'', map (record_cell ''country'') sample_countries),
                            (''cases'', map (record_cell ''cases'') sample_countries),
                            (''deaths'', map (record_cell ''deaths'') sample_countries),
                            (''recovered'', map (record_cell ''recovered'') sample_countries),
                            (''lat'', map (geo_cell ''lat'') sample_countries),
                            (''long'', map (geo_cell ''long'') sample_countries)]\<rparr>,
            [] @ [url_countries])"
  proof (rule snapshot_six_fields)
    show "sample_net url_countries = Inr \<lparr>status_code = 200, body = Some (JArr (map JObj sample_countries))\<rparr>"
      by code_simp
    show "body \<lparr>status_code = 200, body = Some (JArr (map JObj sample_countries))\<rparr> =
          Some (JArr (map JObj sample_countries))"
      by simp
    show "list_all has_geo sample_countries"
      by code_simp
    show "list_all (\<lambda>k. list_ex (\<lambda>r. map_of r k \<noteq> None) sample_countries)
            [''country'', ''cases'', ''deaths'', ''recovered'']"
      by code_simp
  qed
  moreover have "\<lparr>nrows = length sample_countries,
                 columns = [(''country'', map (record_cell ''country'') sample_countries),
                            (''cases'', map (record_cell ''cases'') sample_countries),
                            (''deaths'', map (record_cell ''deaths'') sample_countries),
                            (''recovered'', map (record_cell ''recovered'') sample_countries),
                            (''lat'', map (geo_cell ''lat'') sample_countries),
                            (''long'', map (geo_cell ''long'') sample_countries)]\<rparr> = sample_snapshot"
    by code_simp
  moreover have "map fst (columns sample_snapshot) = [''country'', ''cases'', ''deaths'', ''recovered'', ''lat'', ''long'']"
    by code_simp
  moreover have "map_of (sample_countries ! 1) ''countryInfo'' = Some (JObj [(''iso2'', JNull), (''long'', JInt 139)])"
    by code_simp
  moreover have "map_of (columns sample_snapshot) ''lat'' = Some [Val (JInt 38), Val JNull]"
    by code_simp
  ultimately show ?thesis
    by simp
qed

text \<open>
  C4, as the code has it. The claim says the table has no recovered column when the
  response has no \<^verbatim>\<open>recovered\<close> field. The table builder passes the scalar
  \<^verbatim>\<open>None\<close> for the column (lines 22 and 34), so the column is there and every entry
  of it is missing; line 104 reads the column and would raise if it were not there.
  First the claim's sentence at the sample response: no \<^verbatim>\<open>recovered\<close> key, and a
  recovered column in the table.
\<close>

theorem recovered_column_present_counterexample:
  "map_of sample_global ''recovered'' = None \<and>
   load_covid_data to_datetime_mdy sample_net None [] = (Inr sample_table, [url_historical_all]) \<and>
   map_of (columns sample_table) ''recovered'' = Some [Val JNull, Val JNull, Val JNull]"
  by code_simp

text \<open>
  C4, amended. When the history response (the global one, or a country's under
  \<^verbatim>\<open>timeline\<close>) has \<^verbatim>\<open>cases\<close> and \<^verbatim>\<open>deaths\<close> mappings of one length and no
  \<^verbatim>\<open>recovered\<close> field, the table is built without an error, its recovered column has
  the missing value in every row, and whenever the history section of the page is drawn
  from it, the third card reads \<^verbatim>\<open>N/A\<close> and the trend chart has the lines confirmed
  and deaths only.
\<close>

theorem recovered_absent_is_null_filled:
  assumes "net url = Inr resp"
    and "\<not> (400 \<le> status_code resp \<and> status_code resp < 600)"
    and "(country = None \<and> url = url_historical_all \<and> body resp = Some (JObj d)) \<or>
         (\<exists>c js. country = Some c \<and> lower c \<noteq> ''global'' \<and> url = url_historical c \<and>
                 body resp = Some (JObj js) \<and> map_of js ''timeline'' = Some (JObj d))"
    and "map_of d ''cases'' = Some (JObj cs)"
    and "map_of d ''deaths'' = Some (JObj ds)"
    and "map_of d ''recovered'' = None"
    and "length ds = length cs"
    and "pd (map (\<lambda>kv. Val (JStr (fst kv))) cs) = Inr ts"
    and "length ts = length cs"
  shows "\<exists>df. load_covid_data pd net country log = (Inr df, log @ [url]) \<and>
              map_of (columns df) ''recovered'' = Some (replicate (nrows df) (Val JNull)) \<and>
              (\<forall>country_input yi ws. history_section df country_input yi = Inr ws \<longrightarrow>
                 (\<exists>a b filtered title.
                    ws = [Metric ''Total Confirmed'' a, Metric ''Total Deaths'' b,
                          Metric ''Total Recovered'' ''N/A'',
                          LineChart filtered ''date'' [''confirmed'', ''deaths''] title]))"
proof -
  let ?raw = "\<lparr>nrows = length cs,
              columns = [(''date'', map (\<lambda>kv. Val (JStr (fst kv))) cs),
                         (''confirmed'', map (\<lambda>kv. Val (snd kv)) cs),
                         (''deaths'', map (\<lambda>kv. Val (snd kv)) ds),
                         (''recovered'', series_cells None (length cs))]\<rparr>"
  let ?keep = "map in_2020_2023 (map year_cell ts)"
  let ?tab = "boolean_index ?keep (with_dates ts ?raw)"
  have frame: "history_frame (JObj d) = Inr ?raw"
    using assms(4,5) _ assms(7) by (rule history_frame_eq) (simp_all add: assms(6))
  have restrict: "restrict_years pd ?raw = Inr ?tab"
    using assms(8,9) by (intro restrict_years_eq) simp_all
  have load: "load_covid_data pd net country log = (Inr ?tab, log @ [url])"
    using assms(3)
  proof
    assume "country = None \<and> url = url_historical_all \<and> body resp = Some (JObj d)"
    then show ?thesis
      using assms(1,2) frame restrict
      by (simp add: load_covid_data_def requests_get_def raise_for_status_def resp_json_def)
  next
    assume "\<exists>c js. country = Some c \<and> lower c \<noteq> ''global'' \<and> url = url_historical c \<and>
                 body resp = Some (JObj js) \<and> map_of js ''timeline'' = Some (JObj d)"
    then obtain c js where "country = Some c" "lower c \<noteq> ''global''" "url = url_historical c"
      "body resp = Some (JObj js)" "map_of js ''timeline'' = Some (JObj d)"
      by blast
    then show ?thesis
      using assms(1,2) frame restrict
      by (simp add: load_covid_data_def requests_get_def raise_for_status_def resp_json_def)
  qed
  have "map_of (columns (with_dates ts ?raw)) ''recovered'' = Some (replicate (length cs) (Val JNull))"
    by (simp add: with_dates_def map_of_assign_other series_cells_def)
  then have "map_of (columns ?tab) ''recovered'' = Some (select ?keep (replicate (length cs) (Val JNull)))"
    by (simp add: map_of_boolean_index)
  also have "select ?keep (replicate (length cs) (Val JNull)) = replicate (length (filter id ?keep)) (Val JNull)"
    using assms(9) by (intro select_replicate) simp
  also have "length (filter id ?keep) = nrows ?tab"
    by (simp add: boolean_index_def)
  finally have rec: "map_of (columns ?tab) ''recovered'' = Some (replicate (nrows ?tab) (Val JNull))" .
  have "\<exists>a b filtered title.
          ws = [Metric ''Total Confirmed'' a, Metric ''Total Deaths'' b, Metric ''Total Recovered'' ''N/A'',
                LineChart filtered ''date'' [''confirmed'', ''deaths''] title]"
    if "history_section ?tab country_input yi = Inr ws" for country_input yi ws
    using that rec by (rule history_section_recovered_missing) (simp add: list_all_iff)
  with load rec show ?thesis
    by blast
qed

theorem recovered_absent_is_null_filled_witness:
  "load_covid_data to_datetime_mdy sample_net None [] = (Inr sample_table, [url_historical_all]) \<and>
   map_of (columns sample_table) ''recovered'' = Some (replicate (nrows sample_table) (Val JNull)) \<and>
   history_section sample_table (Some ''Global'') 0 =
     Inr [Metric ''Total Confirmed'' ''1'', Metric ''Total Deaths'' ''0'', Metric ''Total Recovered'' ''N/A'',
          LineChart sample_table_2020 ''date'' [''confirmed'', ''deaths'']
            ''Cumulative COVID-19 Trends: Global (2020)'']"
proof -
  let ?ts = "[Some \<lparr>year = 2020, month = 1, day = 22\<rparr>, Some \<lparr>year = 2023, month = 12, day = 30\<rparr>,
              Some \<lparr>year = 2023, month = 12, day = 31\<rparr>, Some \<lparr>year = 2024, month = 1, day = 1\<rparr>]"
  have "\<exists>df. load_covid_data to_datetime_mdy sample_net None [] = (Inr df, [] @ [url_historical_all]) \<and>
              map_of (columns df) ''recovered'' = Some (replicate (nrows df) (Val JNull)) \<and>
              (\<forall>country_input yi ws. history_section df country_input yi = Inr ws \<longrightarrow>
                 (\<exists>a b filtered title.
                    ws = [Metric ''Total Confirmed'' a, Metric ''Total Deaths'' b,
                          Metric ''Total Recovered'' ''N/A'',
                          LineChart filtered ''date'' [''confirmed'', ''deaths''] title]))"
  proof (rule recovered_absent_is_null_filled)
    show "sample_net url_historical_all = Inr \<lparr>status_code = 200, body = Some (JObj sample_global)\<rparr>"
      by code_simp
    show "\<not> (400 \<le> status_code \<lparr>status_code = 200, body = Some (JObj sample_global)\<rparr> \<and>
             status_code \<lparr>status_code = 200, body = Some (JObj sample_global)\<rparr> < 600)"
      by simp
    show "(None = None \<and> url_historical_all = url_historical_all \<and>
           body \<lparr>status_code = 200, body = Some (JObj sample_global)\<rparr> = Some (JObj sample_global)) \<or>
          (\<exists>c js. None = Some c \<and> lower c \<noteq> ''global'' \<and> url_historical_all = url_historical c \<and>
                 body \<lparr>status_code = 200, body = Some (JObj sample_global)\<rparr> = Some (JObj js) \<and>
                 map_of js ''timeline'' = Some (JObj sample_global))"
      by simp
    show "map_of sample_global ''cases'' = Some (JObj sample_cases)"
      by code_simp
    show "map_of sample_global ''deaths'' = Some (JObj sample_deaths)"
      by code_simp
    show "map_of sample_global ''recovered'' = None"
      by code_simp
    show "length sample_deaths = length sample_cases"
      by code_simp
    show "to_datetime_mdy (map (\<lambda>kv. Val (JStr (fst kv))) sample_cases) = Inr ?ts"
      by (rule sample_dates)
    show "length ?ts = length sample_cases"
      by code_simp
  qed
  then obtain df where "load_covid_data to_datetime_mdy sample_net None [] = (Inr df, [url_historical_all])"
    and rec: "map_of (columns df) ''recovered'' = Some (replicate (nrows df) (Val JNull))"
    by auto
  then have "df = sample_table"
    by (simp add: load_sample_global)
  with rec have "map_of (columns sample_table) ''recovered'' = Some (replicate (nrows sample_table) (Val JNull))"
    by simp
  then show ?thesis
    using load_sample_global sample_history_section by simp
qed

text \<open>
  C6. The three cards show, for confirmed, deaths and recovered, the maximum of that
  column over the rows of the selected year, written with thousands separators
  (\<^verbatim>\<open>f"{n:,}"\<close>); when the recovered column of those rows holds no value, the third
  card shows the placeholder \<^verbatim>\<open>N/A\<close>. Here \<open>filtered\<close> is the year-filtered table,
  and \<open>xs\<close>, \<open>ys\<close>, \<open>zs\<close> are the integers its three columns hold (missing values
  left out, as the maximum skips them).
\<close>

theorem metric_cards_show_maxima:
  assumes "available_years df = Inr years"
    and "filter_year (selectbox years yi) df = Inr filtered"
    and "map_of (columns filtered) ''confirmed'' = Some cs"
    and "filter notna cs = map (\<lambda>i. Val (JInt i)) xs" and "xs \<noteq> []"
    and "map_of (columns filtered) ''deaths'' = Some ds"
    and "filter notna ds = map (\<lambda>i. Val (JInt i)) ys" and "ys \<noteq> []"
    and "map_of (columns filtered) ''recovered'' = Some rs"
    and "filter notna rs = map (\<lambda>i. Val (JInt i)) zs"
  shows "history_section df country_input yi =
         Inr [Metric ''Total Confirmed'' (format_comma (Max (set xs))),
              Metric ''Total Deaths'' (format_comma (Max (set ys))),
              Metric ''Total Recovered'' (if zs = [] then ''N/A'' else format_comma (Max (set zs))),
              trend_chart filtered (if zs = [] then None else Some (Max (set zs))) country_input
                (selectbox years yi)]"
proof -
  have "totals filtered = Inr (Max (set xs), Max (set ys), if zs = [] then None else Some (Max (set zs)))"
    using assms(3-10) by (rule totals_eq)
  then show ?thesis
    using assms(1,2) by (simp add: history_section_def metric_cards_def)
qed

theorem metric_cards_show_maxima_witness:
  "history_section sample_usa_table (Some ''USA'') 1 =
     Inr [Metric ''Total Confirmed'' ''1,234,567'', Metric ''Total Deaths'' ''4,322'',
          Metric ''Total Recovered'' ''1,000'',
          LineChart sample_usa_2023 ''date'' [''confirmed'', ''deaths'', ''recovered'']
            ''Cumulative COVID-19 Trends: USA (2023)'']"
proof -
  have "history_section sample_usa_table (Some ''USA'') 1 =
         Inr [Metric ''Total Confirmed'' (format_comma (Max (set [1234567, 1234000]))),
              Metric ''Total Deaths'' (format_comma (Max (set [4321, 4322]))),
              Metric ''Total Recovered''
                (if [1000, 900] = ([] :: int list) then ''N/A'' else format_comma (Max (set [1000, 900]))),
              trend_chart sample_usa_2023
                (if [1000, 900] = ([] :: int list) then None else Some (Max (set [1000, 900])))
                (Some ''USA'') (selectbox [2020, 2023] 1)]"
  proof (rule metric_cards_show_maxima)
    show "available_years sample_usa_table = Inr [2020, 2023]"
      by (rule sample_years)
    show "filter_year (selectbox [2020, 2023] 1) sample_usa_table = Inr sample_usa_2023"
      by (simp add: sample_year_choice_Suc_0 sample_filter_2023)
    show "map_of (columns sample_usa_2023) ''confirmed'' = Some [Val (JInt 1234567), Val (JInt 1234000)]"
      by code_simp
    show "filter notna [Val (JInt 1234567), Val (JInt 1234000)] = map (\<lambda>i. Val (JInt i)) [1234567, 1234000]"
      by code_simp
    show "map_of (columns sample_usa_2023) ''deaths'' = Some [Val (JInt 4321), Val (JInt 4322)]"
      by code_simp
    show "filter notna [Val (JInt 4321), Val (JInt 4322)] = map (\<lambda>i. Val (JInt i)) [4321, 4322]"
      by code_simp
    show "map_of (columns sample_usa_2023) ''recovered'' = Some [Val (JInt 1000), Val (JInt 900)]"
      by code_simp
    show "filter notna [Val (JInt 1000), Val (JInt 900)] = map (\<lambda>i. Val (JInt i)) [1000, 900]"
      by code_simp
  qed simp_all
  then show ?thesis
    by (simp add: sample_formats sample_year_choice_Suc_0 sample_chart_2023)
qed

text \<open>
  C8. Each of the three loaders is decorated with a time-to-live of 3600 seconds. When a
  call with a cold cache returned a table at the time \<open>t0\<close>, it made the one GET of
  that loader; a call of the same loader with the same argument values at a time less
  than 3600 seconds after \<open>t0\<close> returns that table and requests nothing (the log of
  requests is as it was), whatever the network would answer by then; and a call more
  than 3600 seconds after \<open>t0\<close> runs the loader again, with its one GET. The cache
  itself is the model of \<open>cache_data\<close> written from the specification.
\<close>

theorem cache_hit_within_ttl_then_refetch:
  assumes "c0 k = None"
    and "cached pd net k t0 c0 log0 = ((Inr df, log1), c1)"
  shows "log1 = log0 @ [url_of k] \<and>
         (\<forall>t net' log. t - t0 < 3600 \<longrightarrow> cached pd net' k t c1 log = ((Inr df, log), c1)) \<and>
         (\<forall>t net' log. 3600 < t - t0 \<longrightarrow>
            fst (cached pd net' k t c1 log) = run_call pd net' k log \<and>
            snd (fst (cached pd net' k t c1 log)) = log @ [url_of k])"
proof -
  from assms have c1: "c1 = c0(k \<mapsto> \<lparr>stored_at = t0, table = df\<rparr>)"
    and run: "run_call pd net k log0 = (Inr df, log1)"
    using cached_store by blast+
  have e: "c1 k = Some \<lparr>stored_at = t0, table = df\<rparr>"
    by (simp add: c1)
  have first: "log1 = log0 @ [url_of k]"
    using run by (rule run_call_log)
  have hit: "cached pd net' k t c1 log = ((Inr df, log), c1)" if "t - t0 < 3600" for t net' log
    using cached_hit [of c1 k "\<lparr>stored_at = t0, table = df\<rparr>" t pd net' log] e that
    by (simp add: ttl_def)
  have miss: "fst (cached pd net' k t c1 log) = run_call pd net' k log \<and>
              snd (fst (cached pd net' k t c1 log)) = log @ [url_of k]" if "3600 < t - t0" for t net' log
  proof -
    have "\<not> t - stored_at \<lparr>stored_at = t0, table = df\<rparr> < ttl"
      using that by (simp add: ttl_def)
    with e have m: "fst (cached pd net' k t c1 log) = run_call pd net' k log"
      by (intro cached_miss) simp
    moreover have "snd (run_call pd net' k log) = log @ [url_of k]"
      using run_call_log [of pd net' k log] by (cases "run_call pd net' k log") simp
    ultimately show ?thesis
      by simp
  qed
  from first hit miss show ?thesis
    by blast
qed

theorem cache_hit_within_ttl_then_refetch_witness:
  "cached to_datetime_mdy sample_net (Covid None) 0 (\<lambda>k. None) [] =
     ((Inr sample_table, [url_historical_all]), sample_cache) \<and>
   cached to_datetime_mdy server_error_net (Covid None) 3599 sample_cache [] =
     ((Inr sample_table, []), sample_cache) \<and>
   snd (fst (cached to_datetime_mdy server_error_net (Covid None) 3601 sample_cache [])) =
     [url_historical_all]"
proof -
  have cold: "(\<lambda>k. None) (Covid None) = (None :: entry option)"
    by simp
  note later = cache_hit_within_ttl_then_refetch
    [of "\<lambda>k. None" "Covid None" to_datetime_mdy sample_net 0 "[]" sample_table "[url_historical_all]"
        sample_cache, OF cold cached_sample_first]
  from later have hit: "t - 0 < 3600 \<Longrightarrow>
      cached to_datetime_mdy net' (Covid None) t sample_cache log = ((Inr sample_table, log), sample_cache)"
    for t net' log
    by blast
  from later have miss: "3600 < t - 0 \<Longrightarrow>
      snd (fst (cached to_datetime_mdy net' (Covid None) t sample_cache log)) = log @ [url_of (Covid None)]"
    for t net' log
    by blast
  have "cached to_datetime_mdy server_error_net (Covid None) 3599 sample_cache [] =
     ((Inr sample_table, []), sample_cache)"
    by (rule hit) simp
  moreover have "snd (fst (cached to_datetime_mdy server_error_net (Covid None) 3601 sample_cache [])) =
     [] @ [url_of (Covid None)]"
    by (rule miss) simp
  ultimately show ?thesis
    using cached_sample_first by simp
qed

text \<open>
  C9. The country control offers nine fixed options, \<^verbatim>\<open>Global\<close> first. Whatever the
  user picks is one of them. If it is \<^verbatim>\<open>Global\<close>, no country is passed on, the run
  asks for the snapshot list and then the global history and for nothing else (never a
  vaccination URL), and a run that ends without an exception ends with the note to
  pick a country. If it is a country, that name is passed on, the run asks for the
  snapshot list, then the history of that country, then its vaccination data, and a run
  that ends without an exception has asked for all three. A request that raises ends
  the run there, so the lists of requests are the prefixes that start with the
  snapshot list.
\<close>

theorem country_selection_paths:
  "length country_options = 9 \<and> country_options ! 0 = ''Global'' \<and>
   (\<exists>c. selectbox country_options ci = Some c \<and> c \<in> set country_options \<and>
     (if c = ''Global''
      then use_country_of (Some c) = None \<and>
           requests (main pd net ci yi) \<in> {[url_countries], [url_countries, url_historical_all]} \<and>
           (\<forall>x. url_vaccine x \<notin> set (requests (main pd net ci yi))) \<and>
           (failure (main pd net ci yi) = None \<longrightarrow>
              requests (main pd net ci yi) = [url_countries, url_historical_all] \<and>
              last (page (main pd net ci yi)) = Info ''Select a specific country to view vaccination data.'')
      else use_country_of (Some c) = Some c \<and>
           requests (main pd net ci yi) \<in>
             {[url_countries], [url_countries, url_historical c],
              [url_countries, url_historical c, url_vaccine c]} \<and>
           (failure (main pd net ci yi) = None \<longrightarrow>
              requests (main pd net ci yi) = [url_countries, url_historical c, url_vaccine c])))"
proof -
  have "country_options \<noteq> []"
    by (simp add: country_options_def)
  then obtain c where c: "selectbox country_options ci = Some c" "c \<in> set country_options"
    using selectbox_member [of country_options ci] by auto
  have "length country_options = 9" "country_options ! 0 = ''Global''"
    by (simp_all add: country_options_def)
  moreover have "if c = ''Global''
      then use_country_of (Some c) = None \<and>
           requests (main pd net ci yi) \<in> {[url_countries], [url_countries, url_historical_all]} \<and>
           (\<forall>x. url_vaccine x \<notin> set (requests (main pd net ci yi))) \<and>
           (failure (main pd net ci yi) = None \<longrightarrow>
              requests (main pd net ci yi) = [url_countries, url_historical_all] \<and>
              last (page (main pd net ci yi)) = Info ''Select a specific country to view vaccination data.'')
      else use_country_of (Some c) = Some c \<and>
           requests (main pd net ci yi) \<in>
             {[url_countries], [url_countries, url_historical c],
              [url_countries, url_historical c, url_vaccine c]} \<and>
           (failure (main pd net ci yi) = None \<longrightarrow>
              requests (main pd net ci yi) = [url_countries, url_historical c, url_vaccine c])"
  proof (cases "c = ''Global''")
    case True
    with c(1) have g: "selectbox country_options ci = Some ''Global''"
      by simp
    have r: "requests (main pd net ci yi) \<in> {[url_countries], [url_countries, url_historical_all]}"
      using g by (rule main_global)
    then have "\<forall>x. url_vaccine x \<notin> set (requests (main pd net ci yi))"
      using url_vaccine_other by auto
    with True r main_global(2) [OF g] show ?thesis
      by (simp add: use_country_of_def)
  next
    case False
    with c(2) have plain: "lower c \<noteq> ''global''" "c \<noteq> []"
      using country_option_plain by blast+
    show ?thesis
      using False main_country [OF c(1) False plain] by (simp add: use_country_of_def)
  qed
  ultimately show ?thesis
    using c by blast
qed

theorem country_selection_paths_witness:
  "selectbox country_options 0 = Some ''Global'' \<and>
   failure (main to_datetime_mdy sample_net 0 0) = None \<and>
   requests (main to_datetime_mdy sample_net 0 0) = [url_countries, url_historical_all] \<and>
   last (page (main to_datetime_mdy sample_net 0 0)) = Info ''Select a specific country to view vaccination data.''"
proof -
  have g: "selectbox country_options 0 = Some ''Global''"
    by (rule sample_choice)
  have f: "failure (main to_datetime_mdy sample_net 0 0) = None"
    by (simp add: main_sample_global)
  from country_selection_paths [of 0 to_datetime_mdy sample_net 0] g f
  have "requests (main to_datetime_mdy sample_net 0 0) = [url_countries, url_historical_all] \<and>
        last (page (main to_datetime_mdy sample_net 0 0)) = Info ''Select a specific country to view vaccination data.''"
    by auto
  with g f show ?thesis
    by simp
qed

text \<open>
  C10, as worded. The claim says that for every history table with a row the maximum
  and its conversion to an integer never fail. The loader passes the counts on as the
  service sent them: with a \<^verbatim>\<open>null\<close> count of cases on the one date of 2020, the
  table has two rows, the year control offers 2020 and 2021, the year 2020 is picked,
  the filtered table has its row, and line 102 raises \<^verbatim>\<open>ValueError\<close> (the maximum
  over no value is \<^verbatim>\<open>NaN\<close>).
\<close>

theorem int_max_fails_on_null_count_counterexample:
  "load_covid_data to_datetime_mdy null_count_net None [] = (Inr null_count_table, [url_historical_all]) \<and>
   0 < nrows null_count_table \<and>
   available_years null_count_table = Inr [2020, 2021] \<and>
   selectbox [2020, 2021 :: int] 0 = Some 2020 \<and>
   history_section null_count_table (Some ''Global'') 0 = Inl ValueError"
proof -
  have "0 < nrows null_count_table"
    by (simp add: null_count_table_def)
  then show ?thesis
    by (simp add: load_null_count null_count_years null_count_choice null_count_history_section)
qed

text \<open>
  C10, amended. For a history table that has a row, whatever the response and the
  parser were: the year column holds integers only, the year control offers exactly the
  distinct years of the table in ascending order, the year the user ends up with is the
  year of some row, so the table filtered to that year has a row; and if the confirmed
  column (the deaths column) of the table holds an integer in every row, the maximum of
  the filtered column converts to an integer: line 102 (line 103) returns a value.
\<close>

theorem selected_year_has_rows:
  assumes "load_covid_data pd net country log = (Inr df, log')" and "0 < nrows df"
  shows "\<exists>ys years y filtered.
           map_of (columns df) ''year'' = Some (map (\<lambda>y. Val (JInt y)) ys) \<and>
           available_years df = Inr years \<and> sorted years \<and> distinct years \<and> set years = set ys \<and>
           selectbox years yi = Some y \<and> y \<in> set ys \<and>
           filter_year (Some y) df = Inr filtered \<and> 0 < nrows filtered \<and>
           (integer_column df ''confirmed'' \<longrightarrow>
              (\<exists>m. and_then (getitem filtered ''confirmed'') int_max = Inr m)) \<and>
           (integer_column df ''deaths'' \<longrightarrow>
              (\<exists>m. and_then (getitem filtered ''deaths'') int_max = Inr m))"
proof -
  from assms(1) obtain raw ts where raw: "wf_df raw" "length ts = nrows raw"
    and df: "df = boolean_index (map in_2020_2023 (map year_cell ts)) (with_dates ts raw)"
    using load_covid_data_table by blast
  have wf: "wf_df df"
    unfolding df using raw by (intro wf_df_boolean_index wf_df_with_dates) simp_all
  have "map_of (columns df) ''year'' = Some (select (map in_2020_2023 (map year_cell ts)) (map year_cell ts))"
    unfolding df by (simp only: map_of_boolean_index map_of_with_dates option.map)
  then have "map_of (columns df) ''year'' = Some (filter in_2020_2023 (map year_cell ts))"
    by (simp only: select_map_self)
  moreover obtain ys where "filter in_2020_2023 (map year_cell ts) = map (\<lambda>y. Val (JInt y)) ys"
    using cells_in_range_are_ints [of "filter in_2020_2023 (map year_cell ts)"]
    by (auto simp: list_all_iff)
  ultimately have year: "map_of (columns df) ''year'' = Some (map (\<lambda>y. Val (JInt y)) ys)"
    by simp
  have len: "length ys = nrows df"
    using wf_df_column [OF wf year] by simp
  have years: "available_years df = Inr (sort (remdups ys))"
    by (simp add: available_years_def getitem_def year o_def those_all_Some)
  have "sort (remdups ys) \<noteq> []"
    using len assms(2) by (metis length_greater_0_conv set_empty set_remdups set_sort)
  then obtain y where y: "selectbox (sort (remdups ys)) yi = Some y" "y \<in> set ys"
    using selectbox_member [of "sort (remdups ys)" yi] by auto
  let ?keep = "map (year_equals (Some y)) (map (\<lambda>y. Val (JInt y)) ys)"
  let ?filtered = "boolean_index ?keep df"
  have filtered: "filter_year (Some y) df = Inr ?filtered"
    by (simp add: filter_year_def getitem_def year)
  have "True \<in> set ?keep"
    using y(2) by (force simp: year_equals_def)
  then have kept: "filter id ?keep \<noteq> []"
    by (auto simp: filter_empty_conv)
  have "nrows ?filtered = length (filter id ?keep)"
    by (simp add: boolean_index_def)
  with kept have rows: "0 < nrows ?filtered"
    by (metis length_greater_0_conv)
  have ok: "\<exists>m. and_then (getitem ?filtered name) int_max = Inr m" if "integer_column df name" for name
  proof -
    from that obtain cs where cs: "map_of (columns df) name = Some cs"
      and ints: "list_all (\<lambda>c. int_of_cell c \<noteq> None) cs"
      by (auto simp: integer_column_def split: option.splits)
    have "length ?keep = length cs"
      using wf_df_column [OF wf cs] len by simp
    then have "length (select ?keep cs) = length (filter id ?keep)"
      by (rule length_select)
    with kept have "select ?keep cs \<noteq> []"
      by (metis length_0_conv)
    moreover have "list_all (\<lambda>c. int_of_cell c \<noteq> None) (select ?keep cs)"
      using ints set_select_subset [of ?keep cs] by (auto simp: list_all_iff)
    ultimately obtain m where "int_max (select ?keep cs) = Inr m"
      using int_max_all_ints by blast
    then show ?thesis
      by (simp add: getitem_def map_of_boolean_index cs)
  qed
  have c: "integer_column df ''confirmed'' \<longrightarrow>
              (\<exists>m. and_then (getitem ?filtered ''confirmed'') int_max = Inr m)"
    and d: "integer_column df ''deaths'' \<longrightarrow>
              (\<exists>m. and_then (getitem ?filtered ''deaths'') int_max = Inr m)"
    using ok by blast+
  have s: "sorted (sort (remdups ys))" "distinct (sort (remdups ys))" "set (sort (remdups ys)) = set ys"
    by simp_all
  show ?thesis
    using year years s y filtered rows c d by blast
qed

theorem selected_year_has_rows_witness:
  "load_covid_data to_datetime_mdy sample_net None [] = (Inr sample_table, [url_historical_all]) \<and>
   0 < nrows sample_table \<and>
   available_years sample_table = Inr [2020, 2023] \<and>
   selectbox [2020, 2023 :: int] 0 = Some 2020 \<and>
   filter_year (Some 2020) sample_table = Inr sample_table_2020 \<and>
   0 < nrows sample_table_2020 \<and>
   integer_column sample_table ''confirmed'' \<and>
   and_then (getitem sample_table_2020 ''confirmed'') int_max = Inr 1 \<and>
   integer_column sample_table ''deaths'' \<and>
   and_then (getitem sample_table_2020 ''deaths'') int_max = Inr 0"
proof -
  have n: "0 < nrows sample_table"
    by (simp add: sample_table_def)
  from selected_year_has_rows [OF load_sample_global n, of 0]
  obtain years y filtered where a: "available_years sample_table = Inr years"
    and b: "selectbox years 0 = Some y" and c: "filter_year (Some y) sample_table = Inr filtered"
    and d: "0 < nrows filtered"
    by blast
  from a have years: "years = [2020, 2023]"
    by (simp add: sample_years)
  from b have y: "y = 2020"
    unfolding years by (simp add: sample_year_choice)
  from c have "filtered = sample_table_2020"
    unfolding y by (simp add: sample_filter_2020)
  with d have "0 < nrows sample_table_2020"
    by simp
  then show ?thesis
    using load_sample_global n sample_years(1) sample_year_choice(1) sample_filter_2020
      sample_integer_columns sample_maxima_2020
    by simp
qed

end
